theory Spec2Isabelle
  imports Complex_Main "HOL-Library.AList" "HOL-Library.Char_ord" "HOL-Library.List_Lexorder"
    "HOL-Library.Log_Nat"
begin

section \<open>Python values\<close>

text \<open>
  The records of \<^verbatim>\<open>domain_models.py\<close> are dictionaries loaded from JSON, so a field may hold
  any JSON value. A value is \<^verbatim>\<open>None\<close>, a bool, an (unbounded) int, a float, a string, a list
  or a dict with string keys. A dict is an association list in insertion order, as Python
  keeps it: an assignment to a present key replaces the value in place, a new key goes to the
  end.

  A float is finite here, and \<open>PFloat r\<close> is the float of value \<open>r\<close>. The values \<^verbatim>\<open>inf\<close> and
  \<^verbatim>\<open>nan\<close>, which \<^verbatim>\<open>json.load\<close> reads from the tokens \<^verbatim>\<open>Infinity\<close> and \<^verbatim>\<open>NaN\<close>, are not
  values of the model: a statement about every record is a statement about every record of
  finite numbers. A string is its UTF-8 byte sequence.
\<close>

datatype pyval =
    PNone
  | PBool bool
  | PInt int
  | PFloat rat
  | PStr string
  | PList "pyval list"
  | PDict "(string \<times> pyval) list"

type_synonym pydict = "(string \<times> pyval) list"

datatype pyerr = TypeError | AttributeError | ValueError | ZeroDivisionError | OverflowError

definition err_bind :: "pyerr + 'a \<Rightarrow> ('a \<Rightarrow> pyerr + 'b) \<Rightarrow> pyerr + 'b" where
  "err_bind m f = (case m of Inl e \<Rightarrow> Inl e | Inr x \<Rightarrow> f x)"

text \<open>Truth value of an object: \<^verbatim>\<open>bool(x)\<close>, \<^verbatim>\<open>if x\<close>, \<^verbatim>\<open>not x\<close>.\<close>

fun truthy :: "pyval \<Rightarrow> bool" where
  "truthy PNone = False"
| "truthy (PBool b) = b"
| "truthy (PInt i) = (i \<noteq> 0)"
| "truthy (PFloat r) = (r \<noteq> 0)"
| "truthy (PStr s) = (s \<noteq> [])"
| "truthy (PList xs) = (xs \<noteq> [])"
| "truthy (PDict d) = (d \<noteq> [])"

text \<open>\<^verbatim>\<open>a or b\<close> on values.\<close>

definition py_or :: "pyval \<Rightarrow> pyval \<Rightarrow> pyval" where
  "py_or a b = (if truthy a then a else b)"

text \<open>The numeric value of a bool, int or float; they compare by value (\<^verbatim>\<open>1 == True == 1.0\<close>).\<close>

fun py_num :: "pyval \<Rightarrow> rat option" where
  "py_num (PBool b) = Some (if b then 1 else 0)"
| "py_num (PInt i) = Some (of_int i)"
| "py_num (PFloat r) = Some r"
| "py_num _ = None"

text \<open>\<^verbatim>\<open>a == b\<close>: numbers by value, strings and \<^verbatim>\<open>None\<close> by identity of content, lists
  elementwise, dicts as finite maps.\<close>

fun py_eq :: "pyval \<Rightarrow> pyval \<Rightarrow> bool"
  and py_eq_list :: "pyval list \<Rightarrow> pyval list \<Rightarrow> bool"
  and py_eq_items :: "(string \<times> pyval) list \<Rightarrow> (string \<times> pyval) list \<Rightarrow> bool" where
  "py_eq PNone b = (b = PNone)"
| "py_eq (PStr s) b = (b = PStr s)"
| "py_eq (PList xs) b = (case b of PList ys \<Rightarrow> py_eq_list xs ys | _ \<Rightarrow> False)"
| "py_eq (PDict d) b = (case b of PDict d' \<Rightarrow> length d = length d' \<and> py_eq_items d d' | _ \<Rightarrow> False)"
| "py_eq (PBool x) b = (py_num b = Some (if x then 1 else 0))"
| "py_eq (PInt i) b = (py_num b = Some (of_int i))"
| "py_eq (PFloat r) b = (py_num b = Some r)"
| "py_eq_list [] ys = (ys = [])"
| "py_eq_list (x # xs) ys = (case ys of [] \<Rightarrow> False | y # ys' \<Rightarrow> py_eq x y \<and> py_eq_list xs ys')"
| "py_eq_items [] d' = True"
| "py_eq_items (kv # d) d' =
     ((case map_of d' (fst kv) of None \<Rightarrow> False | Some w \<Rightarrow> py_eq (snd kv) w) \<and> py_eq_items d d')"

text \<open>Lists and dicts are unhashable: a test \<^verbatim>\<open>x in {...}\<close> against a set raises
  \<^verbatim>\<open>TypeError\<close> for them.\<close>

fun hashable :: "pyval \<Rightarrow> bool" where
  "hashable (PList xs) = False"
| "hashable (PDict d) = False"
| "hashable _ = True"

definition in_set :: "pyval \<Rightarrow> pyval list \<Rightarrow> pyerr + bool" where
  "in_set x S = (if hashable x then Inr (list_ex (py_eq x) S) else Inl TypeError)"

text \<open>\<^verbatim>\<open>x in (a, b, ...)\<close> against a tuple compares with \<^verbatim>\<open>==\<close> and never raises.\<close>

definition in_tuple :: "pyval \<Rightarrow> pyval list \<Rightarrow> bool" where
  "in_tuple x T = list_ex (py_eq x) T"

subsection \<open>Dictionaries\<close>

definition has_key :: "pydict \<Rightarrow> string \<Rightarrow> bool" where
  "has_key d k = (map_of d k \<noteq> None)"

text \<open>\<^verbatim>\<open>d.get(k)\<close> and \<^verbatim>\<open>d.get(k, default)\<close>.\<close>

definition dict_get :: "pydict \<Rightarrow> string \<Rightarrow> pyval" where
  "dict_get d k = (case map_of d k of None \<Rightarrow> PNone | Some v \<Rightarrow> v)"

definition dict_get_default :: "pydict \<Rightarrow> string \<Rightarrow> pyval \<Rightarrow> pyval" where
  "dict_get_default d k dflt = (case map_of d k of None \<Rightarrow> dflt | Some v \<Rightarrow> v)"

text \<open>\<^verbatim>\<open>d[k] = v\<close>, \<^verbatim>\<open>d.pop(k, None)\<close>, \<^verbatim>\<open>d.setdefault(k, v)\<close> (the dict after the call) and
  \<^verbatim>\<open>d.update(other)\<close>.\<close>

definition dict_set :: "pydict \<Rightarrow> string \<Rightarrow> pyval \<Rightarrow> pydict" where
  "dict_set d k v = AList.update k v d"

definition dict_pop :: "pydict \<Rightarrow> string \<Rightarrow> pydict" where
  "dict_pop d k = AList.delete k d"

definition dict_setdefault :: "pydict \<Rightarrow> string \<Rightarrow> pyval \<Rightarrow> pydict" where
  "dict_setdefault d k v = (if has_key d k then d else dict_set d k v)"

definition dict_update :: "pydict \<Rightarrow> pydict \<Rightarrow> pydict" where
  "dict_update d other = fold (\<lambda>kv acc. dict_set acc (fst kv) (snd kv)) other d"

text \<open>\<^verbatim>\<open>s in x\<close> for a string \<^verbatim>\<open>s\<close>: membership in a list, substring of a string, key of a
  dict; any other right operand is not iterable.\<close>

fun is_prefix :: "string \<Rightarrow> string \<Rightarrow> bool" where
  "is_prefix [] t = True"
| "is_prefix (c # s) [] = False"
| "is_prefix (c # s) (d # t) = (c = d \<and> is_prefix s t)"

fun is_substring :: "string \<Rightarrow> string \<Rightarrow> bool" where
  "is_substring s [] = (s = [])"
| "is_substring s (d # t) = (is_prefix s (d # t) \<or> is_substring s t)"

fun str_in :: "string \<Rightarrow> pyval \<Rightarrow> pyerr + bool" where
  "str_in s (PList xs) = Inr (list_ex (\<lambda>y. py_eq y (PStr s)) xs)"
| "str_in s (PStr t) = Inr (is_substring s t)"
| "str_in s (PDict d) = Inr (has_key d s)"
| "str_in s _ = Inl TypeError"

section \<open>Constants of the domain model\<close>

abbreviation ACCOUNT_STATUS_AGENT_STOCK :: string where
  "ACCOUNT_STATUS_AGENT_STOCK \<equiv> ''agent_stock''"
abbreviation ACCOUNT_STATUS_DISTRIBUTOR_STOCK :: string where
  "ACCOUNT_STATUS_DISTRIBUTOR_STOCK \<equiv> ''distributor_stock''"
abbreviation ACCOUNT_STATUS_SOLD :: string where
  "ACCOUNT_STATUS_SOLD \<equiv> ''sold''"

abbreviation SALE_TYPE_DIRECT :: string where
  "SALE_TYPE_DIRECT \<equiv> ''direct_sale''"
abbreviation SALE_TYPE_DISTRIBUTION :: string where
  "SALE_TYPE_DISTRIBUTION \<equiv> ''distribution_sale''"

abbreviation ROLE_ADMIN :: string where "ROLE_ADMIN \<equiv> ''admin''"
abbreviation ROLE_AGENT :: string where "ROLE_AGENT \<equiv> ''agent''"
abbreviation ROLE_DISTRIBUTOR :: string where "ROLE_DISTRIBUTOR \<equiv> ''distributor''"
abbreviation ROLE_CUSTOMER :: string where "ROLE_CUSTOMER \<equiv> ''customer''"

abbreviation TRANSACTION_AGENT_PURCHASE :: string where
  "TRANSACTION_AGENT_PURCHASE \<equiv> ''agent_purchase''"
abbreviation TRANSACTION_LEGACY :: string where
  "TRANSACTION_LEGACY \<equiv> ''legacy''"

text \<open>The two localized legacy labels of the sale type, as UTF-8 bytes: the label of a direct
  sale (four CJK characters, U+603B U+90E8 U+76F4 U+9500) and the label of a distribution
  sale (U+5206 U+9500 U+552E U+51FA).\<close>

definition LABEL_DIRECT :: string where
  "LABEL_DIRECT = [CHR 0xE6, CHR 0x80, CHR 0xBB, CHR 0xE9, CHR 0x83, CHR 0xA8,
                   CHR 0xE7, CHR 0x9B, CHR 0xB4, CHR 0xE9, CHR 0x94, CHR 0x80]"

definition LABEL_DISTRIBUTION :: string where
  "LABEL_DISTRIBUTION = [CHR 0xE5, CHR 0x88, CHR 0x86, CHR 0xE9, CHR 0x94, CHR 0x80,
                         CHR 0xE5, CHR 0x94, CHR 0xAE, CHR 0xE5, CHR 0x87, CHR 0xBA]"

section \<open>Account state\<close>

record AccountState =
  owner :: pyval
  manager :: pyval
  status :: pyval
  sale_type :: pyval
  sold_at :: pyval

text \<open>The dataclass defaults: \<^verbatim>\<open>AccountState()\<close>.\<close>

definition AccountState_default :: AccountState where
  "AccountState_default =
     \<lparr>owner = PNone, manager = PNone, status = PStr ACCOUNT_STATUS_AGENT_STOCK,
      sale_type = PNone, sold_at = PNone\<rparr>"

definition ensure_defaults :: "AccountState \<Rightarrow> pyerr + AccountState" where
  "ensure_defaults self =
     (let s1 = (if \<not> truthy (manager self) then self\<lparr>manager := owner self\<rparr> else self) in
      err_bind (in_set (status s1)
                  [PStr ACCOUNT_STATUS_AGENT_STOCK, PStr ACCOUNT_STATUS_DISTRIBUTOR_STOCK,
                   PStr ACCOUNT_STATUS_SOLD])
        (\<lambda>known_status.
           let s2 = (if \<not> known_status then s1\<lparr>status := PStr ACCOUNT_STATUS_AGENT_STOCK\<rparr> else s1) in
           err_bind (in_set (sale_type s2)
                       [PStr SALE_TYPE_DIRECT, PStr SALE_TYPE_DISTRIBUTION, PNone])
             (\<lambda>known_sale_type.
                Inr (if \<not> known_sale_type then s2\<lparr>sale_type := PNone\<rparr> else s2))))"


text \<open>The dict written into \<^verbatim>\<open>data["accounting"]\<close> by \<^verbatim>\<open>.update({...})\<close>.\<close>

definition state_items :: "AccountState \<Rightarrow> pydict" where
  "state_items state =
     [(''owner'', owner state), (''manager'', manager state), (''status'', status state),
      (''sale_type'', sale_type state), (''sold_at'', sold_at state)]"

subsection \<open>Role normalisation\<close>

text \<open>Iterating a value, as \<^verbatim>\<open>set(x)\<close> does: the elements of a list, the characters of a
  string (one string per code point), the keys of a dict.\<close>

definition is_continuation :: "char \<Rightarrow> bool" where
  "is_continuation c = ((of_char c :: nat) div 64 = 2)"

fun code_points :: "string \<Rightarrow> string list" where
  "code_points [] = []"
| "code_points [c] = [[c]]"
| "code_points (c # d # cs) =
     (if is_continuation d then
        (case code_points (d # cs) of [] \<Rightarrow> [[c]] | g # gs \<Rightarrow> (c # g) # gs)
      else [c] # code_points (d # cs))"

fun py_iter :: "pyval \<Rightarrow> pyerr + pyval list" where
  "py_iter (PList xs) = Inr xs"
| "py_iter (PStr s) = Inr (map PStr (code_points s))"
| "py_iter (PDict d) = Inr (map (\<lambda>kv. PStr (fst kv)) d)"
| "py_iter _ = Inl TypeError"

text \<open>A set is the list of its elements, pairwise different under \<^verbatim>\<open>==\<close>; adding an element
  equal to a present one keeps the present one.\<close>

definition set_mem :: "pyval \<Rightarrow> pyval list \<Rightarrow> bool" where
  "set_mem x S = list_ex (py_eq x) S"

definition set_add :: "pyval list \<Rightarrow> pyval \<Rightarrow> pyval list" where
  "set_add S x = (if set_mem x S then S else S @ [x])"

definition py_set :: "pyval list \<Rightarrow> pyerr + pyval list" where
  "py_set xs = (if list_all hashable xs then Inr (fold (\<lambda>x S. set_add S x) xs [])
                else Inl TypeError)"

text \<open>\<^verbatim>\<open>sorted(s)\<close> of a set of hashable values: strings order among themselves (by code point,
  which is the byte order of UTF-8), numbers among themselves; any other pair is not
  comparable and raises \<^verbatim>\<open>TypeError\<close>. A set of at most one element needs no comparison.\<close>

fun is_str :: "pyval \<Rightarrow> bool" where
  "is_str (PStr s) = True"
| "is_str _ = False"

fun str_of :: "pyval \<Rightarrow> string" where
  "str_of (PStr s) = s"
| "str_of _ = []"

definition num_key :: "pyval \<Rightarrow> rat" where
  "num_key v = (case py_num v of Some r \<Rightarrow> r | None \<Rightarrow> 0)"

definition py_sorted :: "pyval list \<Rightarrow> pyerr + pyval list" where
  "py_sorted xs =
     (if length xs \<le> 1 then Inr xs
      else if list_all is_str xs then Inr (map PStr (sort (map str_of xs)))
      else if list_all (\<lambda>v. py_num v \<noteq> None) xs then Inr (sort_key num_key xs)
      else Inl TypeError)"

definition normalise_roles :: "pydict \<Rightarrow> pyerr + pydict" where
  "normalise_roles data =
     err_bind (py_iter (py_or (dict_get data ''roles'') (PList []))) (\<lambda>items.
     err_bind (py_set items) (\<lambda>roles0.
       let roles1 = (if truthy (dict_get data ''is_admin'')
                     then set_add roles0 (PStr ROLE_ADMIN) else roles0);
           roles2 = (if truthy (dict_get data ''is_agent'')
                     then set_add roles1 (PStr ROLE_AGENT) else roles1);
           roles3 = (if truthy (dict_get data ''is_distributor'')
                     then set_add roles2 (PStr ROLE_DISTRIBUTOR) else roles2);
           roles = (if roles3 = [] then set_add roles3 (PStr ROLE_CUSTOMER) else roles3)
       in err_bind (py_sorted roles) (\<lambda>sorted_roles.
            Inr (dict_set (dict_set (dict_set (dict_set data
                   ''roles'' (PList sorted_roles))
                   ''is_admin'' (PBool (set_mem (PStr ROLE_ADMIN) roles)))
                   ''is_agent'' (PBool (set_mem (PStr ROLE_AGENT) roles)))
                   ''is_distributor'' (PBool (set_mem (PStr ROLE_DISTRIBUTOR) roles))))))"

subsection \<open>Inventory records and the legacy mirror\<close>

definition is_inventory_record :: "pydict \<Rightarrow> pyerr + bool" where
  "is_inventory_record data =
     (if truthy (dict_get data ''owner'') then Inr True
      else if list_ex (has_key data)
                [''forsale'', ''distribution_tag'', ''distributor_forsale'', ''assigned_distributor'']
      then Inr True
      else in_set (dict_get data ''source'')
             [PStr ''agent'', PStr ''batch'', PStr ''distribution'', PStr ''admin_transfer''])"

text \<open>The guard of \<^verbatim>\<open>_sync_legacy_flags\<close>:
  \<^verbatim>\<open>ROLE_AGENT in data.get("roles", []) or ROLE_ADMIN in ... or ROLE_DISTRIBUTOR in ...\<close>.\<close>

definition has_business_role :: "pydict \<Rightarrow> pyerr + bool" where
  "has_business_role data =
     (let roles = dict_get_default data ''roles'' (PList []) in
      err_bind (str_in ROLE_AGENT roles) (\<lambda>a.
        if a then Inr True
        else err_bind (str_in ROLE_ADMIN roles) (\<lambda>b.
          if b then Inr True else str_in ROLE_DISTRIBUTOR roles)))"

text \<open>The three blocks of \<^verbatim>\<open>_sync_legacy_flags\<close> after the guard, in the order of the
  source: the flags by status, the sale type label, the sale time.\<close>

definition sync_status_flags :: "pydict \<Rightarrow> AccountState \<Rightarrow> pydict" where
  "sync_status_flags data state =
     (if py_eq (status state) (PStr ACCOUNT_STATUS_AGENT_STOCK) then
        dict_pop (dict_set (dict_set (dict_set (dict_set data
          ''forsale'' (PBool True))
          ''distribution_tag'' (PBool False))
          ''distributor_forsale'' (PBool False))
          ''distributor_sold'' (PBool False))
          ''assigned_distributor''
      else if py_eq (status state) (PStr ACCOUNT_STATUS_DISTRIBUTOR_STOCK) then
        dict_set (dict_set (dict_set (dict_set (dict_set data
          ''forsale'' (PBool False))
          ''distribution_tag'' (PBool True))
          ''distributor_forsale'' (PBool True))
          ''distributor_sold'' (PBool False))
          ''assigned_distributor'' (manager state)
      else
        (let managed = (truthy (manager state) \<and> \<not> py_eq (manager state) (owner state));
             d = dict_set (dict_set (dict_set (dict_set data
                   ''forsale'' (PBool False))
                   ''distribution_tag'' (PBool managed))
                   ''distributor_forsale'' (PBool False))
                   ''distributor_sold'' (PBool (py_eq (sale_type state) (PStr SALE_TYPE_DISTRIBUTION)))
         in if managed then dict_set d ''assigned_distributor'' (manager state)
            else if has_key d ''assigned_distributor'' then dict_pop d ''assigned_distributor''
            else d))"

definition sync_sale_type :: "pydict \<Rightarrow> AccountState \<Rightarrow> pydict" where
  "sync_sale_type data state =
     (if py_eq (sale_type state) (PStr SALE_TYPE_DIRECT) then
        dict_set data ''sale_type'' (PStr LABEL_DIRECT)
      else if py_eq (sale_type state) (PStr SALE_TYPE_DISTRIBUTION) then
        dict_set data ''sale_type'' (PStr LABEL_DISTRIBUTION)
      else dict_pop data ''sale_type'')"

definition sync_sold_at :: "pydict \<Rightarrow> AccountState \<Rightarrow> pydict" where
  "sync_sold_at data state =
     (if truthy (sold_at state) then dict_set data ''sold_at'' (sold_at state) else data)"

definition sync_legacy_flags :: "pydict \<Rightarrow> AccountState \<Rightarrow> pyerr + pydict" where
  "sync_legacy_flags data state =
     err_bind (has_business_role data) (\<lambda>business.
       if business then Inr data
       else
         (let d1 = dict_set (dict_set data ''owner'' (owner state)) ''manager'' (manager state)
          in Inr (sync_sold_at (sync_sale_type (sync_status_flags d1 state) state) state)))"

subsection \<open>ensure_accounting and update_account_state\<close>

text \<open>The two legacy fallbacks of \<^verbatim>\<open>ensure_accounting\<close>: the sale type from the legacy
  \<^verbatim>\<open>sale_type\<close> label, and the status from the legacy flags.\<close>

definition legacy_sale_type :: "pydict \<Rightarrow> AccountState \<Rightarrow> pyerr + AccountState" where
  "legacy_sale_type data state =
     (if \<not> truthy (sale_type state) then
        (let st = dict_get data ''sale_type'' in
         err_bind (in_set st [PStr SALE_TYPE_DIRECT, PStr LABEL_DIRECT, PStr ''direct'']) (\<lambda>direct.
           if direct then Inr (state\<lparr>sale_type := PStr SALE_TYPE_DIRECT\<rparr>)
           else err_bind (in_set st [PStr SALE_TYPE_DISTRIBUTION, PStr LABEL_DISTRIBUTION,
                                     PStr ''distribution'']) (\<lambda>distribution.
             if distribution then Inr (state\<lparr>sale_type := PStr SALE_TYPE_DISTRIBUTION\<rparr>)
             else Inr state)))
      else Inr state)"

definition legacy_status :: "pydict \<Rightarrow> AccountState \<Rightarrow> AccountState" where
  "legacy_status data state =
     (if \<not> truthy (status state) then
        (if truthy (dict_get data ''distributor_forsale'') then
           state\<lparr>status := PStr ACCOUNT_STATUS_DISTRIBUTOR_STOCK\<rparr>
         else if in_tuple (dict_get data ''forsale'')
                   [PBool False, PInt 0, PStr ''false'', PStr ''False''] then
           state\<lparr>status := PStr ACCOUNT_STATUS_SOLD\<rparr>
         else state\<lparr>status := PStr ACCOUNT_STATUS_AGENT_STOCK\<rparr>)
      else state)"

text \<open>\<^verbatim>\<open>data["accounting"].update({...})\<close>: the dict under \<^verbatim>\<open>accounting\<close> is updated in place;
  a value that is not a dict has no \<^verbatim>\<open>update\<close> (and no \<^verbatim>\<open>get\<close>).\<close>

definition write_accounting :: "pydict \<Rightarrow> AccountState \<Rightarrow> pyerr + pydict" where
  "write_accounting data state =
     (case dict_get data ''accounting'' of
        PDict state_data \<Rightarrow>
          Inr (dict_set data ''accounting'' (PDict (dict_update state_data (state_items state))))
      | _ \<Rightarrow> Inl AttributeError)"

definition ensure_accounting :: "pydict \<Rightarrow> pyerr + (pydict \<times> AccountState)" where
  "ensure_accounting data0 =
     (let data = dict_setdefault data0 ''accounting'' (PDict []) in
      case dict_get data ''accounting'' of
        PDict state_data \<Rightarrow>
          (let state0 =
             \<lparr>owner = py_or (dict_get state_data ''owner'') (dict_get data ''owner''),
              manager = py_or (dict_get state_data ''manager'')
                         (py_or (dict_get data ''manager'')
                           (py_or (dict_get data ''assigned_distributor'') (dict_get data ''owner''))),
              status = py_or (dict_get state_data ''status'') (dict_get data ''status''),
              sale_type = py_or (dict_get state_data ''sale_type'') (dict_get data ''sale_type''),
              sold_at = py_or (dict_get state_data ''sold_at'') (dict_get data ''sold_at'')\<rparr>
           in err_bind (ensure_defaults state0) (\<lambda>state1.
                let state2 = (if status state1 = PNone
                              then state1\<lparr>status := PStr ACCOUNT_STATUS_AGENT_STOCK\<rparr> else state1)
                in err_bind (legacy_sale_type data state2) (\<lambda>state3.
                     err_bind (ensure_defaults (legacy_status data state3)) (\<lambda>state.
                       err_bind (write_accounting data state) (\<lambda>data1.
                         err_bind (sync_legacy_flags data1 state) (\<lambda>data2.
                           Inr (data2, state)))))))
      | _ \<Rightarrow> Inl AttributeError)"

text \<open>The keyword arguments default to \<^verbatim>\<open>None\<close>, and \<^verbatim>\<open>None\<close> means that the field is
  not passed.\<close>

definition apply_changes ::
  "AccountState \<Rightarrow> pyval \<Rightarrow> pyval \<Rightarrow> pyval \<Rightarrow> pyval \<Rightarrow> pyval \<Rightarrow> AccountState" where
  "apply_changes state owner_kw manager_kw status_kw sale_type_kw sold_at_kw =
     (let s1 = (if owner_kw \<noteq> PNone then state\<lparr>owner := owner_kw\<rparr> else state);
          s2 = (if manager_kw \<noteq> PNone then s1\<lparr>manager := manager_kw\<rparr> else s1);
          s3 = (if status_kw \<noteq> PNone then s2\<lparr>status := status_kw\<rparr> else s2);
          s4 = (if sale_type_kw \<noteq> PNone then s3\<lparr>sale_type := sale_type_kw\<rparr> else s3)
      in (if sold_at_kw \<noteq> PNone then s4\<lparr>sold_at := sold_at_kw\<rparr> else s4))"

definition update_account_state ::
  "pydict \<Rightarrow> pyval \<Rightarrow> pyval \<Rightarrow> pyval \<Rightarrow> pyval \<Rightarrow> pyval \<Rightarrow> pyerr + (pydict \<times> AccountState)" where
  "update_account_state data owner_kw manager_kw status_kw sale_type_kw sold_at_kw =
     err_bind (is_inventory_record data) (\<lambda>inventory.
       if \<not> inventory then
         err_bind (normalise_roles data) (\<lambda>data1. Inr (data1, AccountState_default))
       else
         err_bind (ensure_accounting data) (\<lambda>r.
           err_bind (ensure_defaults
                       (apply_changes (snd r) owner_kw manager_kw status_kw sale_type_kw sold_at_kw))
             (\<lambda>state.
               err_bind (write_accounting (dict_setdefault (fst r) ''accounting'' (PDict [])) state)
                 (\<lambda>data1.
                   err_bind (sync_legacy_flags data1 state) (\<lambda>data2. Inr (data2, state))))))"

subsection \<open>The distributor's mark-unsold correction (server.py)\<close>

text \<open>\<^verbatim>\<open>distributor_mark_unsold\<close> on the loaded user store: the result is the store to be saved
  and the \<^verbatim>\<open>success\<close> flag of the response. The user name comes from the request body.\<close>

definition distributor_mark_unsold :: "pydict \<Rightarrow> string \<Rightarrow> pyval \<Rightarrow> pyerr + (pydict \<times> bool)" where
  "distributor_mark_unsold users current_distributor username =
     (if \<not> hashable username then Inl TypeError
      else case username of
        PStr name \<Rightarrow>
          (case map_of users name of
             None \<Rightarrow> Inr (users, False)
           | Some (PDict data) \<Rightarrow>
               (case dict_get_default data ''accounting'' (PDict []) of
                  PDict state \<Rightarrow>
                    (if py_eq (dict_get state ''owner'') (PStr current_distributor)
                        \<and> py_eq (dict_get state ''status'') (PStr ACCOUNT_STATUS_SOLD)
                        \<and> py_eq (dict_get state ''sale_type'') (PStr SALE_TYPE_DISTRIBUTION)
                     then
                       err_bind (update_account_state data
                                   (PStr current_distributor) (PStr current_distributor)
                                   (PStr ACCOUNT_STATUS_DISTRIBUTOR_STOCK) PNone PNone)
                         (\<lambda>r. Inr (dict_set users name (PDict (fst r)), True))
                     else Inr (users, False))
                | _ \<Rightarrow> Inl AttributeError)
           | Some _ \<Rightarrow> Inl AttributeError)
      | _ \<Rightarrow> Inr (users, False))"

section \<open>Ledger entries\<close>

text \<open>What the model takes from outside the repository: the parsers behind \<^verbatim>\<open>float(s)\<close> and
  \<^verbatim>\<open>int(s)\<close> on a string (\<open>None\<close> is \<^verbatim>\<open>ValueError\<close>; the float is finite), \<^verbatim>\<open>str(x)\<close> of a value that is not a
  string, and \<^verbatim>\<open>dict(xs)\<close> of a non-empty list. The fresh \<^verbatim>\<open>uuid.uuid4()\<close> and the formatted
  \<^verbatim>\<open>datetime.now()\<close> are arguments of the functions that draw them.\<close>

record builtins =
  float_of_str :: "string \<Rightarrow> rat option"
  int_of_str :: "string \<Rightarrow> int option"
  repr :: "pyval \<Rightarrow> string"
  dict_of_list :: "pyval list \<Rightarrow> pyerr + pydict"

subsection \<open>Float arithmetic\<close>

text \<open>\<open>fl x\<close> is the double nearest to \<open>x\<close>, as IEEE 754 rounds the exact result of an
  operation: 53 significant bits, the unit in the last place not below 2 to the power -1074,
  a tie to the even mantissa. The exponent has no upper bound in \<open>fl\<close>: where the result of a
  Python operation is beyond the largest double and Python gives \<^verbatim>\<open>inf\<close>, the model has the
  value of \<open>fl\<close>, of the same sign.\<close>

definition pow2 :: "int \<Rightarrow> rat" where
  "pow2 k = (if 0 \<le> k then 2 ^ nat k else 1 / 2 ^ nat (- k))"

text \<open>For \<open>0 < x\<close>, the \<open>k\<close> with \<open>pow2 k \<le> x < pow2 (k + 1)\<close>.\<close>

definition log2_floor :: "rat \<Rightarrow> int" where
  "log2_floor x =
     (let k = bitlen (fst (quotient_of x)) - bitlen (snd (quotient_of x))
      in if x < pow2 k then k - 1 else k)"

text \<open>To the nearest integer, a tie to the even one.\<close>

definition round_half_even :: "rat \<Rightarrow> int" where
  "round_half_even x =
     (let f = \<lfloor>x\<rfloor>; d = x - of_int f
      in if d < 1 / 2 then f else if 1 / 2 < d then f + 1 else if even f then f else f + 1)"

definition fl :: "rat \<Rightarrow> rat" where
  "fl x =
     (if x = 0 then 0
      else let t = max (log2_floor \<bar>x\<bar>) (- 1022) - 52
           in of_int (round_half_even (x / pow2 t)) * pow2 t)"

text \<open>An operand of a float operation is the double nearest to the value that the model
  holds for it.\<close>

definition float_mul :: "rat \<Rightarrow> rat \<Rightarrow> rat" where
  "float_mul a b = fl (fl a * fl b)"

definition float_div :: "rat \<Rightarrow> rat \<Rightarrow> rat" where
  "float_div a b = fl (fl a / fl b)"

text \<open>The conversion of an int to a float, in \<^verbatim>\<open>float(i)\<close> and for the int operand of a float
  operation, raises \<^verbatim>\<open>OverflowError\<close> when the int rounds to 2 to the power 1024 or beyond:
  the largest double is \<open>2 ^ 1024 - 2 ^ 971\<close>, and the ints from \<open>2 ^ 1024 - 2 ^ 970\<close> on round
  up.\<close>

definition int_overflows :: "int \<Rightarrow> bool" where
  "int_overflows i = (2 ^ 1024 - 2 ^ 970 \<le> \<bar>i\<bar>)"

definition float_of_int :: "int \<Rightarrow> pyerr + rat" where
  "float_of_int i = (if int_overflows i then Inl OverflowError else Inr (fl (of_int i)))"

text \<open>\<^verbatim>\<open>x * n\<close> and \<^verbatim>\<open>x / n\<close> for a float \<^verbatim>\<open>x\<close> and an int \<^verbatim>\<open>n\<close>.\<close>

definition float_mul_int :: "rat \<Rightarrow> int \<Rightarrow> pyerr + rat" where
  "float_mul_int x n = err_bind (float_of_int n) (\<lambda>y. Inr (float_mul x y))"

definition float_div_int :: "rat \<Rightarrow> int \<Rightarrow> pyerr + rat" where
  "float_div_int x n =
     err_bind (float_of_int n) (\<lambda>y. if n = 0 then Inl ZeroDivisionError else Inr (float_div x y))"

subsection \<open>Conversions\<close>

fun py_float :: "builtins \<Rightarrow> pyval \<Rightarrow> pyerr + rat" where
  "py_float env (PBool b) = Inr (if b then 1 else 0)"
| "py_float env (PInt i) = float_of_int i"
| "py_float env (PFloat r) = Inr r"
| "py_float env (PStr s) = (case float_of_str env s of None \<Rightarrow> Inl ValueError | Some r \<Rightarrow> Inr r)"
| "py_float env _ = Inl TypeError"

text \<open>\<^verbatim>\<open>int(x)\<close> truncates a float towards zero.\<close>

fun py_int :: "builtins \<Rightarrow> pyval \<Rightarrow> pyerr + int" where
  "py_int env (PBool b) = Inr (if b then 1 else 0)"
| "py_int env (PInt i) = Inr i"
| "py_int env (PFloat r) = Inr (if 0 \<le> r then \<lfloor>r\<rfloor> else \<lceil>r\<rceil>)"
| "py_int env (PStr s) = (case int_of_str env s of None \<Rightarrow> Inl ValueError | Some i \<Rightarrow> Inr i)"
| "py_int env _ = Inl TypeError"

definition py_str :: "builtins \<Rightarrow> pyval \<Rightarrow> string" where
  "py_str env v = (case v of PStr s \<Rightarrow> s | _ \<Rightarrow> repr env v)"

fun py_dict :: "builtins \<Rightarrow> pyval \<Rightarrow> pyerr + pydict" where
  "py_dict env (PDict d) = Inr d"
| "py_dict env (PList xs) = (if xs = [] then Inr [] else dict_of_list env xs)"
| "py_dict env (PStr s) = (if s = [] then Inr [] else Inl ValueError)"
| "py_dict env _ = Inl TypeError"

text \<open>\<^verbatim>\<open>try: ... except (TypeError, ValueError): ...\<close>\<close>

definition except_type_value :: "pyerr + 'a \<Rightarrow> (pyerr + 'a) \<Rightarrow> pyerr + 'a" where
  "except_type_value body handler =
     (case body of
        Inl e \<Rightarrow> (if e = TypeError \<or> e = ValueError then handler else Inl e)
      | Inr x \<Rightarrow> Inr x)"

text \<open>\<^verbatim>\<open>round(x, 2)\<close>: the value of \<^verbatim>\<open>x\<close> to the nearest multiple of 0.01, a tie to the even
  one.\<close>

definition py_round2 :: "rat \<Rightarrow> rat" where
  "py_round2 x = of_int (round_half_even (x * 100)) / 100"

definition py_truediv :: "rat \<Rightarrow> rat \<Rightarrow> pyerr + rat" where
  "py_truediv a b = (if b = 0 then Inl ZeroDivisionError else Inr (a / b))"

record LedgerEntry =
  entry_id :: pyval
  time :: pyval
  actor :: pyval
  actor_role :: pyval
  transaction_type :: pyval
  direction :: pyval
  amount :: rat
  quantity :: int
  product :: pyval
  account_username :: pyval
  counterparty :: pyval
  entry_sale_type :: pyval
  metadata :: pyval

subsection \<open>LedgerEntry.from_raw\<close>

text \<open>The last \<^verbatim>\<open>try\<close> block of \<^verbatim>\<open>_get_amount\<close>: the price times the count, the count 1 when
  it is 0 or absent.\<close>

definition amount_by_price :: "builtins \<Rightarrow> pyval \<Rightarrow> pyval \<Rightarrow> pyerr + rat" where
  "amount_by_price env price count =
     except_type_value
       (err_bind (py_float env (py_or price (PInt 0))) (\<lambda>price_val.
        err_bind (py_int env (py_or count (PInt 0))) (\<lambda>c.
          let count_val = (if c \<noteq> 0 then c else 1)
          in float_mul_int price_val count_val)))
       (Inr 0)"

definition get_amount :: "builtins \<Rightarrow> pydict \<Rightarrow> pyerr + rat" where
  "get_amount env raw =
     (if has_key raw ''amount'' then
        except_type_value
          (py_float env (py_or (dict_get_default raw ''amount'' (PInt 0)) (PInt 0)))
          (Inr 0)
      else
        (let revenue = dict_get raw ''revenue'';
             price = dict_get raw ''price'';
             count = dict_get raw ''count''
         in if revenue \<noteq> PNone then
              (case py_float env (py_or revenue (PInt 0)) of
                 Inr r \<Rightarrow> Inr r
               | Inl e \<Rightarrow> (if e = TypeError \<or> e = ValueError
                          then amount_by_price env price count else Inl e))
            else amount_by_price env price count))"

definition get_quantity :: "builtins \<Rightarrow> pydict \<Rightarrow> pyerr + int" where
  "get_quantity env raw =
     except_type_value
       (py_int env (py_or (dict_get_default raw ''quantity'' (dict_get_default raw ''count'' (PInt 0)))
                          (PInt 0)))
       (Inr 0)"

definition get_direction :: "pydict \<Rightarrow> pyerr + pyval" where
  "get_direction raw =
     (let direction = dict_get raw ''direction'' in
      err_bind (in_set direction [PStr ''in'', PStr ''out'']) (\<lambda>given.
        if given then Inr direction
        else if py_eq (dict_get raw ''transaction_type'') (PStr TRANSACTION_AGENT_PURCHASE)
        then Inr (PStr ''out'')
        else Inr (PStr ''in'')))"

definition get_sale_type :: "pydict \<Rightarrow> pyerr + pyval" where
  "get_sale_type raw =
     (let sale_type = dict_get raw ''sale_type'' in
      err_bind (in_set sale_type [PStr SALE_TYPE_DIRECT, PStr SALE_TYPE_DISTRIBUTION, PNone]) (\<lambda>known.
        if known then Inr sale_type
        else err_bind (in_set sale_type [PStr LABEL_DIRECT, PStr ''direct'']) (\<lambda>direct.
          if direct then Inr (PStr SALE_TYPE_DIRECT)
          else err_bind (in_set sale_type [PStr LABEL_DISTRIBUTION, PStr ''distribution'']) (\<lambda>distribution.
            if distribution then Inr (PStr SALE_TYPE_DISTRIBUTION) else Inr PNone))))"

text \<open>The seven \<^verbatim>\<open>entry.metadata.setdefault("legacy_...", raw.get(...))\<close> calls.\<close>

definition legacy_metadata :: "pydict \<Rightarrow> pydict \<Rightarrow> pydict" where
  "legacy_metadata md raw =
     fold (\<lambda>kv acc. dict_setdefault acc (fst kv) (dict_get raw (snd kv)))
       [(''legacy_admin'', ''admin''), (''legacy_role'', ''role''), (''legacy_count'', ''count''),
        (''legacy_revenue'', ''revenue''), (''legacy_price'', ''price''),
        (''legacy_user_id'', ''user_id''), (''legacy_direction'', ''direction'')]
       md"

definition from_raw :: "builtins \<Rightarrow> string \<Rightarrow> string \<Rightarrow> pydict \<Rightarrow> pyerr + LedgerEntry" where
  "from_raw env uuid4 now raw =
     (let actor_v = py_or (dict_get raw ''actor'') (py_or (dict_get raw ''admin'') (PStr []));
          role_v = py_or (dict_get raw ''actor_role'') (py_or (dict_get raw ''role'') (PStr ROLE_ADMIN));
          time_v = py_or (dict_get raw ''time'') (PStr now)
      in
      err_bind (get_direction raw) (\<lambda>direction_v.
      err_bind (get_amount env raw) (\<lambda>amount_v.
      err_bind (get_quantity env raw) (\<lambda>quantity_v.
      err_bind (get_sale_type raw) (\<lambda>sale_type_v.
      err_bind (py_dict env (dict_get_default raw ''metadata'' (PDict []))) (\<lambda>md.
        Inr \<lparr>entry_id = PStr (py_str env (py_or (dict_get raw ''id'') (PStr uuid4))),
             time = PStr (py_str env time_v),
             actor = PStr (py_str env actor_v),
             actor_role = PStr (py_str env role_v),
             transaction_type =
               PStr (py_str env (py_or (dict_get raw ''transaction_type'') (PStr TRANSACTION_LEGACY))),
             direction = direction_v,
             amount = amount_v,
             quantity = quantity_v,
             product = dict_get raw ''product'',
             account_username = py_or (dict_get raw ''account_username'') (dict_get raw ''username''),
             counterparty = py_or (dict_get raw ''counterparty'')
                              (py_or (dict_get raw ''agent'') (dict_get raw ''distributor'')),
             entry_sale_type = sale_type_v,
             metadata = PDict (legacy_metadata md raw)\<rparr>))))))"

subsection \<open>LedgerEntry.to_dict\<close>

text \<open>The dict literal \<^verbatim>\<open>data\<close> of \<^verbatim>\<open>to_dict\<close>: the canonical fields, then the legacy mirror
  fields.\<close>

definition to_dict_data :: "LedgerEntry \<Rightarrow> rat \<Rightarrow> pydict" where
  "to_dict_data self price =
     [(''id'', entry_id self),
      (''time'', time self),
      (''actor'', actor self),
      (''actor_role'', actor_role self),
      (''transaction_type'', transaction_type self),
      (''direction'', direction self),
      (''amount'', PFloat (py_round2 (amount self))),
      (''quantity'', PInt (quantity self)),
      (''product'', product self),
      (''account_username'', account_username self),
      (''counterparty'', counterparty self),
      (''sale_type'', entry_sale_type self),
      (''metadata'', metadata self),
      (''admin'', actor self),
      (''role'', actor_role self),
      (''price'', PFloat (py_round2 price)),
      (''count'', PInt (quantity self)),
      (''revenue'', PFloat (py_round2 (amount self)))]"

definition to_dict :: "LedgerEntry \<Rightarrow> pyerr + pydict" where
  "to_dict self =
     err_bind (if quantity self \<noteq> 0 then float_div_int (amount self) (quantity self)
               else Inr 0) (\<lambda>price.
       let data = to_dict_data self price
       in if truthy (counterparty self) then
            (let d1 = (if py_eq (actor_role self) (PStr ROLE_AGENT)
                       then dict_setdefault data ''agent'' (actor self) else data)
             in Inr (if py_eq (actor_role self) (PStr ROLE_ADMIN)
                     then dict_setdefault d1 ''agent'' (counterparty self) else d1))
          else Inr data)"

subsection \<open>build_ledger_entry and record_transaction\<close>

text \<open>The keyword arguments of \<^verbatim>\<open>build_ledger_entry\<close>; \<open>None\<close> is an argument that the caller
  does not pass, which then takes the default of the signature.\<close>

record ledger_kwargs =
  kw_transaction_type :: pyval
  kw_actor :: pyval
  kw_actor_role :: pyval
  kw_amount :: pyval
  kw_quantity :: "pyval option"
  kw_product :: "pyval option"
  kw_account_username :: "pyval option"
  kw_counterparty :: "pyval option"
  kw_sale_type :: "pyval option"
  kw_direction :: "pyval option"
  kw_occurred_at :: "pyval option"
  kw_metadata :: "pyval option"

definition arg_or :: "pyval option \<Rightarrow> pyval \<Rightarrow> pyval" where
  "arg_or a dflt = (case a of None \<Rightarrow> dflt | Some v \<Rightarrow> v)"

text \<open>The \<^verbatim>\<open>LedgerEntry(...)\<close> that \<^verbatim>\<open>build_ledger_entry\<close> constructs.\<close>

definition new_entry :: "builtins \<Rightarrow> string \<Rightarrow> string \<Rightarrow> ledger_kwargs \<Rightarrow> pyerr + LedgerEntry" where
  "new_entry env uuid4 now kw =
     err_bind (py_float env (py_or (kw_amount kw) (PInt 0))) (\<lambda>amount_v.
     err_bind (py_int env (py_or (arg_or (kw_quantity kw) (PInt 1)) (PInt 0))) (\<lambda>quantity_v.
       Inr \<lparr>entry_id = PStr uuid4,
            time = py_or (arg_or (kw_occurred_at kw) PNone) (PStr now),
            actor = kw_actor kw,
            actor_role = kw_actor_role kw,
            transaction_type = kw_transaction_type kw,
            direction = arg_or (kw_direction kw) (PStr ''in''),
            amount = amount_v,
            quantity = quantity_v,
            product = arg_or (kw_product kw) PNone,
            account_username = arg_or (kw_account_username kw) PNone,
            counterparty = arg_or (kw_counterparty kw) PNone,
            entry_sale_type = arg_or (kw_sale_type kw) PNone,
            metadata = py_or (arg_or (kw_metadata kw) PNone) (PDict [])\<rparr>))"

definition build_ledger_entry :: "builtins \<Rightarrow> string \<Rightarrow> string \<Rightarrow> ledger_kwargs \<Rightarrow> pyerr + pydict" where
  "build_ledger_entry env uuid4 now kw = err_bind (new_entry env uuid4 now kw) to_dict"


subsection \<open>Approving an application (server.py)\<close>



subsection \<open>The percent change of a KPI (server.py)\<close>

definition pct_change :: "rat \<Rightarrow> rat \<Rightarrow> pyerr + rat" where
  "pct_change cur prev =
     (if prev = 0 then Inr (if 0 < cur then 100 else 0)
      else err_bind (py_truediv (cur - prev) prev) (\<lambda>q. Inr (q * 100)))"

text \<open>A \<open>builtins\<close> value for evaluating the functions at concrete inputs that hold no
  numeric string, no value other than a string where \<^verbatim>\<open>str\<close> is applied and no list as
  metadata: there none of its four functions is consulted.\<close>

definition unused_builtins :: builtins where
  "unused_builtins =
     \<lparr>float_of_str = (\<lambda>s. None), int_of_str = (\<lambda>s. None), repr = (\<lambda>v. []),
      dict_of_list = (\<lambda>xs. Inl TypeError)\<rparr>"

section \<open>Notions used in the statements\<close>

text \<open>The recognised values of the status and of the sale type.\<close>

definition known_status :: "pyval \<Rightarrow> bool" where
  "known_status v =
     (v = PStr ACCOUNT_STATUS_AGENT_STOCK \<or> v = PStr ACCOUNT_STATUS_DISTRIBUTOR_STOCK
      \<or> v = PStr ACCOUNT_STATUS_SOLD)"

definition known_sale_type :: "pyval \<Rightarrow> bool" where
  "known_sale_type v = (v = PStr SALE_TYPE_DIRECT \<or> v = PStr SALE_TYPE_DISTRIBUTION \<or> v = PNone)"

text \<open>The status that a record carries when \<^verbatim>\<open>ensure_accounting\<close> reads it:
  \<^verbatim>\<open>state_data.get("status") or data.get("status")\<close>.\<close>

definition stored_status :: "pydict \<Rightarrow> pyval" where
  "stored_status data =
     (case dict_get_default data ''accounting'' (PDict []) of
        PDict state_data \<Rightarrow> py_or (dict_get state_data ''status'') (dict_get data ''status'')
      | _ \<Rightarrow> PNone)"

text \<open>The \<^verbatim>\<open>accounting\<close> dict of a record.\<close>

definition accounting_of :: "pydict \<Rightarrow> pydict" where
  "accounting_of data = (case dict_get data ''accounting'' of PDict a \<Rightarrow> a | _ \<Rightarrow> [])"

text \<open>The keys that \<^verbatim>\<open>to_dict\<close> always emits.\<close>

definition entry_keys :: "string list" where
  "entry_keys =
     [''id'', ''time'', ''actor'', ''actor_role'', ''transaction_type'', ''direction'',
      ''amount'', ''quantity'', ''product'', ''account_username'', ''counterparty'', ''sale_type'',
      ''metadata'', ''admin'', ''role'', ''price'', ''count'', ''revenue'']"

text \<open>The top-level keys that \<^verbatim>\<open>_sync_legacy_flags\<close> writes or removes.\<close>

definition mirror_keys :: "string set" where
  "mirror_keys = {''owner'', ''manager'', ''forsale'', ''distribution_tag'', ''distributor_forsale'',
     ''distributor_sold'', ''assigned_distributor'', ''sale_type'', ''sold_at''}"

text \<open>A record without a recognised status whose legacy flags point to distributor stock and
  to a sale at the same time.\<close>

definition flagged_record :: pydict where
  "flagged_record =
     [(''status'', PStr ''bogus''), (''distributor_forsale'', PBool True),
      (''forsale'', PBool False), (''owner'', PStr ''a1'')]"

definition flagged_record_after :: pydict where
  "flagged_record_after =
     [(''status'', PStr ''bogus''), (''distributor_forsale'', PBool False),
      (''forsale'', PBool True), (''owner'', PStr ''a1''),
      (''accounting'',
         PDict [(''owner'', PStr ''a1''), (''manager'', PStr ''a1''),
                (''status'', PStr ACCOUNT_STATUS_AGENT_STOCK),
                (''sale_type'', PNone), (''sold_at'', PNone)]),
      (''manager'', PStr ''a1''), (''distribution_tag'', PBool False),
      (''distributor_sold'', PBool False)]"

definition stock_state_a1 :: AccountState where
  "stock_state_a1 =
     \<lparr>owner = PStr ''a1'', manager = PStr ''a1'', status = PStr ACCOUNT_STATUS_AGENT_STOCK,
      sale_type = PNone, sold_at = PNone\<rparr>"

text \<open>A user store with one account that distributor \<^verbatim>\<open>d1\<close> has sold: the record as
  \<^verbatim>\<open>distributor_mark_sold\<close> leaves it.\<close>

definition stock_record :: pydict where
  "stock_record =
     [(''source'', PStr ''agent''), (''product'', PStr ''p1''), (''price'', PFloat 10),
      (''accounting'',
         PDict [(''owner'', PStr ''d1''), (''manager'', PStr ''d1''),
                (''status'', PStr ACCOUNT_STATUS_DISTRIBUTOR_STOCK),
                (''sale_type'', PNone), (''sold_at'', PNone)]),
      (''owner'', PStr ''d1''), (''manager'', PStr ''d1''),
      (''forsale'', PBool False), (''distribution_tag'', PBool True),
      (''distributor_forsale'', PBool True), (''distributor_sold'', PBool False),
      (''assigned_distributor'', PStr ''d1'')]"

definition sold_record :: pydict where
  "sold_record =
     [(''source'', PStr ''agent''), (''product'', PStr ''p1''), (''price'', PFloat 10),
      (''accounting'',
         PDict [(''owner'', PStr ''d1''), (''manager'', PStr ''d1''),
                (''status'', PStr ACCOUNT_STATUS_SOLD),
                (''sale_type'', PStr SALE_TYPE_DISTRIBUTION),
                (''sold_at'', PStr ''2024-05-01 10:00:00'')]),
      (''owner'', PStr ''d1''), (''manager'', PStr ''d1''),
      (''forsale'', PBool False), (''distribution_tag'', PBool False),
      (''distributor_forsale'', PBool False), (''distributor_sold'', PBool True),
      (''sale_type'', PStr LABEL_DISTRIBUTION), (''sold_at'', PStr ''2024-05-01 10:00:00'')]"

text \<open>The keyword arguments of a call that records an agent's purchase and passes no
  direction.\<close>

definition purchase_kwargs :: ledger_kwargs where
  "purchase_kwargs =
     \<lparr>kw_transaction_type = PStr TRANSACTION_AGENT_PURCHASE, kw_actor = PStr ''a1'',
      kw_actor_role = PStr ROLE_AGENT, kw_amount = PFloat 100, kw_quantity = Some (PInt 10),
      kw_product = Some (PStr ''p1''), kw_account_username = None,
      kw_counterparty = Some (PStr ''root''), kw_sale_type = None, kw_direction = None,
      kw_occurred_at = None, kw_metadata = None\<rparr>"

definition purchase_entry :: pydict where
  "purchase_entry =
     [(''id'', PStr ''id-1''), (''time'', PStr ''2024-05-01 10:00:00''),
      (''actor'', PStr ''a1''), (''actor_role'', PStr ROLE_AGENT),
      (''transaction_type'', PStr TRANSACTION_AGENT_PURCHASE),
      (''direction'', PStr ''in''), (''amount'', PFloat 100),
      (''quantity'', PInt 10), (''product'', PStr ''p1''),
      (''account_username'', PNone), (''counterparty'', PStr ''root''),
      (''sale_type'', PNone), (''metadata'', PDict []),
      (''admin'', PStr ''a1''), (''role'', PStr ROLE_AGENT),
      (''price'', PFloat 10), (''count'', PInt 10),
      (''revenue'', PFloat 100), (''agent'', PStr ''a1'')]"




text \<open>A raw ledger record is well-formed outside its numeric fields when the direction and
  the sale type are hashable (not a list or a dict) and the metadata is absent or a dict.\<close>

definition plain_raw :: "pydict \<Rightarrow> bool" where
  "plain_raw raw =
     (hashable (dict_get raw ''direction'') \<and> hashable (dict_get raw ''sale_type'') \<and>
      (case dict_get_default raw ''metadata'' (PDict []) of PDict md \<Rightarrow> True | _ \<Rightarrow> False))"





text \<open>A multiple of 0.01.\<close>

definition whole_cents :: "rat \<Rightarrow> bool" where
  "whole_cents x = (of_int \<lfloor>x * 100\<rfloor> = x * 100)"



text \<open>The keyword arguments of a sale of one unit for 0.125, and the entry that
  \<^verbatim>\<open>build_ledger_entry\<close> constructs from them.\<close>

definition eighth_kwargs :: ledger_kwargs where
  "eighth_kwargs =
     \<lparr>kw_transaction_type = PStr ''agent_direct_sale'', kw_actor = PStr ''a1'',
      kw_actor_role = PStr ROLE_AGENT, kw_amount = PFloat (1 / 8), kw_quantity = Some (PInt 1),
      kw_product = Some (PStr ''p1''), kw_account_username = Some (PStr ''u1''),
      kw_counterparty = None, kw_sale_type = Some (PStr SALE_TYPE_DIRECT), kw_direction = None,
      kw_occurred_at = None, kw_metadata = None\<rparr>"

definition eighth_entry :: LedgerEntry where
  "eighth_entry =
     \<lparr>entry_id = PStr ''id-1'', time = PStr ''2024-05-01 10:00:00'', actor = PStr ''a1'',
      actor_role = PStr ROLE_AGENT, transaction_type = PStr ''agent_direct_sale'',
      direction = PStr ''in'', amount = 1 / 8, quantity = 1, product = PStr ''p1'',
      account_username = PStr ''u1'', counterparty = PNone,
      entry_sale_type = PStr SALE_TYPE_DIRECT, metadata = PDict []\<rparr>"

definition eighth_dict :: pydict where
  "eighth_dict =
     [(''id'', PStr ''id-1''), (''time'', PStr ''2024-05-01 10:00:00''),
      (''actor'', PStr ''a1''), (''actor_role'', PStr ROLE_AGENT),
      (''transaction_type'', PStr ''agent_direct_sale''),
      (''direction'', PStr ''in''), (''amount'', PFloat (3 / 25)),
      (''quantity'', PInt 1), (''product'', PStr ''p1''),
      (''account_username'', PStr ''u1''), (''counterparty'', PNone),
      (''sale_type'', PStr SALE_TYPE_DIRECT), (''metadata'', PDict []),
      (''admin'', PStr ''a1''), (''role'', PStr ROLE_AGENT),
      (''price'', PFloat (3 / 25)), (''count'', PInt 1),
      (''revenue'', PFloat (3 / 25))]"

definition eighth_entry_back :: LedgerEntry where
  "eighth_entry_back =
     \<lparr>entry_id = PStr ''id-1'', time = PStr ''2024-05-01 10:00:00'', actor = PStr ''a1'',
      actor_role = PStr ROLE_AGENT, transaction_type = PStr ''agent_direct_sale'',
      direction = PStr ''in'', amount = 3 / 25, quantity = 1, product = PStr ''p1'',
      account_username = PStr ''u1'', counterparty = PNone,
      entry_sale_type = PStr SALE_TYPE_DIRECT,
      metadata = PDict [(''legacy_admin'', PStr ''a1''), (''legacy_role'', PStr ROLE_AGENT),
                        (''legacy_count'', PInt 1), (''legacy_revenue'', PFloat (3 / 25)),
                        (''legacy_price'', PFloat (3 / 25)), (''legacy_user_id'', PNone),
                        (''legacy_direction'', PStr ''in'')]\<rparr>"




text \<open>The entry built from \<open>purchase_kwargs\<close>, and the entry that \<^verbatim>\<open>from_raw\<close> reads back
  from its dict.\<close>

definition purchase_entry_new :: LedgerEntry where
  "purchase_entry_new =
     \<lparr>entry_id = PStr ''id-1'', time = PStr ''2024-05-01 10:00:00'', actor = PStr ''a1'',
      actor_role = PStr ROLE_AGENT, transaction_type = PStr TRANSACTION_AGENT_PURCHASE,
      direction = PStr ''in'', amount = 100, quantity = 10, product = PStr ''p1'',
      account_username = PNone, counterparty = PStr ''root'',
      entry_sale_type = PNone, metadata = PDict []\<rparr>"

definition purchase_entry_back :: LedgerEntry where
  "purchase_entry_back =
     \<lparr>entry_id = PStr ''id-1'', time = PStr ''2024-05-01 10:00:00'', actor = PStr ''a1'',
      actor_role = PStr ROLE_AGENT, transaction_type = PStr TRANSACTION_AGENT_PURCHASE,
      direction = PStr ''in'', amount = 100, quantity = 10, product = PStr ''p1'',
      account_username = PNone, counterparty = PStr ''root'',
      entry_sale_type = PNone,
      metadata = PDict [(''legacy_admin'', PStr ''a1''), (''legacy_role'', PStr ROLE_AGENT),
                        (''legacy_count'', PInt 10), (''legacy_revenue'', PFloat 100),
                        (''legacy_price'', PFloat 10), (''legacy_user_id'', PNone),
                        (''legacy_direction'', PStr ''in'')]\<rparr>"



text \<open>The entry that \<^verbatim>\<open>from_raw\<close> makes of the raw record \<^verbatim>\<open>{"quantity": 10**309}\<close>.\<close>

definition huge_quantity_entry :: LedgerEntry where
  "huge_quantity_entry =
     \<lparr>entry_id = PStr ''id-9'', time = PStr ''2024-05-01 10:00:00'', actor = PStr [],
      actor_role = PStr ROLE_ADMIN, transaction_type = PStr TRANSACTION_LEGACY,
      direction = PStr ''in'', amount = 0, quantity = 10 ^ 309, product = PNone,
      account_username = PNone, counterparty = PNone, entry_sale_type = PNone,
      metadata = PDict [(''legacy_admin'', PNone), (''legacy_role'', PNone),
                        (''legacy_count'', PNone), (''legacy_revenue'', PNone),
                        (''legacy_price'', PNone), (''legacy_user_id'', PNone),
                        (''legacy_direction'', PNone)]\<rparr>"

text \<open>An entry of quantity 0 with the amount 0.125, an entry of 200 units for 3.0, and their
  dicts: 0.125 rounds to 0.12, and the double quotient 3.0 / 200 is below 0.015 and rounds to
  0.01.\<close>

definition unit_less_entry :: LedgerEntry where
  "unit_less_entry =
     \<lparr>entry_id = PStr ''e1'', time = PStr ''2024-05-01 10:00:00'', actor = PStr ''a1'',
      actor_role = PStr ROLE_AGENT, transaction_type = PStr ''agent_direct_sale'',
      direction = PStr ''in'', amount = 1 / 8, quantity = 0, product = PNone,
      account_username = PNone, counterparty = PNone, entry_sale_type = PNone,
      metadata = PDict []\<rparr>"

definition unit_less_dict :: pydict where
  "unit_less_dict =
     [(''id'', PStr ''e1''), (''time'', PStr ''2024-05-01 10:00:00''), (''actor'', PStr ''a1''),
      (''actor_role'', PStr ROLE_AGENT), (''transaction_type'', PStr ''agent_direct_sale''),
      (''direction'', PStr ''in''), (''amount'', PFloat (3 / 25)), (''quantity'', PInt 0),
      (''product'', PNone), (''account_username'', PNone), (''counterparty'', PNone),
      (''sale_type'', PNone), (''metadata'', PDict []), (''admin'', PStr ''a1''),
      (''role'', PStr ROLE_AGENT), (''price'', PFloat 0), (''count'', PInt 0),
      (''revenue'', PFloat (3 / 25))]"

definition bulk_entry :: LedgerEntry where
  "bulk_entry =
     \<lparr>entry_id = PStr ''e2'', time = PStr ''2024-05-01 10:00:00'', actor = PStr ''a1'',
      actor_role = PStr ROLE_AGENT, transaction_type = PStr ''agent_direct_sale'',
      direction = PStr ''in'', amount = 3, quantity = 200, product = PNone,
      account_username = PNone, counterparty = PNone, entry_sale_type = PNone,
      metadata = PDict []\<rparr>"

definition bulk_dict :: pydict where
  "bulk_dict =
     [(''id'', PStr ''e2''), (''time'', PStr ''2024-05-01 10:00:00''), (''actor'', PStr ''a1''),
      (''actor_role'', PStr ROLE_AGENT), (''transaction_type'', PStr ''agent_direct_sale''),
      (''direction'', PStr ''in''), (''amount'', PFloat 3), (''quantity'', PInt 200),
      (''product'', PNone), (''account_username'', PNone), (''counterparty'', PNone),
      (''sale_type'', PNone), (''metadata'', PDict []), (''admin'', PStr ''a1''),
      (''role'', PStr ROLE_AGENT), (''price'', PFloat (1 / 100)), (''count'', PInt 200),
      (''revenue'', PFloat 3)]"

section \<open>Basic facts about the Python layer\<close>

lemma err_bind_Inr [simp]: "err_bind (Inr x) f = f x"
  by (simp add: err_bind_def)

lemma err_bind_Inl [simp]: "err_bind (Inl e) f = Inl e"
  by (simp add: err_bind_def)

lemma err_bind_Inr_iff: "(err_bind m f = Inr y) = (\<exists>x. m = Inr x \<and> f x = Inr y)"
  by (cases m) auto

lemma py_eq_PStr [simp]: "py_eq x (PStr s) = (x = PStr s)"
  by (cases x) auto

lemma py_eq_PNone [simp]: "py_eq x PNone = (x = PNone)"
  by (cases x) auto

lemma in_set_Inr_iff: "(in_set x S = Inr b) = (hashable x \<and> b = list_ex (py_eq x) S)"
  by (auto simp: in_set_def)

lemma map_of_dict_set: "map_of (dict_set d k v) = (map_of d)(k \<mapsto> v)"
  by (simp add: dict_set_def update_conv')

lemma map_of_dict_pop: "map_of (dict_pop d k) = (map_of d)(k := None)"
  by (simp add: dict_pop_def delete_conv')

lemma map_of_dict_setdefault:
  "map_of (dict_setdefault d k v) = (if has_key d k then map_of d else (map_of d)(k \<mapsto> v))"
  by (simp add: dict_setdefault_def map_of_dict_set)

lemma map_of_dict_setdefault_other:
  "k' \<noteq> k \<Longrightarrow> map_of (dict_setdefault d k v) k' = map_of d k'"
  by (simp add: map_of_dict_setdefault)

lemma py_round2_0 [simp]: "py_round2 0 = 0"
  by (simp add: py_round2_def round_half_even_def)

section \<open>The account state\<close>

lemma ensure_defaults_Inr:
  assumes "ensure_defaults s = Inr s'"
  shows "owner s' = owner s"
    and "manager s' = (if truthy (manager s) then manager s else owner s)"
    and "status s' = (if known_status (status s) then status s else PStr ACCOUNT_STATUS_AGENT_STOCK)"
    and "sale_type s' = (if known_sale_type (sale_type s) then sale_type s else PNone)"
    and "sold_at s' = sold_at s"
    and "hashable (status s)" and "hashable (sale_type s)"
  using assms
  by (auto simp: ensure_defaults_def Let_def err_bind_Inr_iff in_set_Inr_iff known_status_def
        known_sale_type_def split: if_splits)

lemma ensure_defaults_known:
  assumes "ensure_defaults s = Inr s'"
  shows "known_status (status s')" and "known_sale_type (sale_type s')"
  using ensure_defaults_Inr [OF assms]
  by (auto simp: known_status_def known_sale_type_def)

lemma legacy_sale_type_Inr:
  assumes "legacy_sale_type data s = Inr s'"
  shows "owner s' = owner s" "manager s' = manager s" "status s' = status s" "sold_at s' = sold_at s"
    "known_sale_type (sale_type s) \<Longrightarrow> known_sale_type (sale_type s')"
  using assms
  by (auto simp: legacy_sale_type_def Let_def err_bind_Inr_iff in_set_Inr_iff known_sale_type_def
        split: if_splits)

lemma known_status_truthy: "known_status v \<Longrightarrow> truthy v \<and> v \<noteq> PNone"
  by (auto simp: known_status_def)

lemma legacy_status_id: "truthy (status s) \<Longrightarrow> legacy_status data s = s"
  by (simp add: legacy_status_def)

lemma ensure_accounting_Inr:
  assumes "ensure_accounting data = Inr (data', st)"
  obtains sd s0 s1 s3 d1 where
    "dict_get (dict_setdefault data ''accounting'' (PDict [])) ''accounting'' = PDict sd"
    "s0 = \<lparr>owner = py_or (dict_get sd ''owner'') (dict_get data ''owner''),
           manager = py_or (dict_get sd ''manager'')
                       (py_or (dict_get data ''manager'')
                         (py_or (dict_get data ''assigned_distributor'') (dict_get data ''owner''))),
           status = py_or (dict_get sd ''status'') (dict_get data ''status''),
           sale_type = py_or (dict_get sd ''sale_type'') (dict_get data ''sale_type''),
           sold_at = py_or (dict_get sd ''sold_at'') (dict_get data ''sold_at'')\<rparr>"
    "ensure_defaults s0 = Inr s1"
    "legacy_sale_type (dict_setdefault data ''accounting'' (PDict [])) s1 = Inr s3"
    "ensure_defaults s3 = Inr st"
    "write_accounting (dict_setdefault data ''accounting'' (PDict [])) st = Inr d1"
    "sync_legacy_flags d1 st = Inr data'"
proof -
  let ?d = "dict_setdefault data ''accounting'' (PDict [])"
  obtain sd where sd: "dict_get ?d ''accounting'' = PDict sd"
    using assms by (auto simp: ensure_accounting_def Let_def split: pyval.splits)
  define s0 where "s0 = \<lparr>owner = py_or (dict_get sd ''owner'') (dict_get data ''owner''),
           manager = py_or (dict_get sd ''manager'')
                       (py_or (dict_get data ''manager'')
                         (py_or (dict_get data ''assigned_distributor'') (dict_get data ''owner''))),
           status = py_or (dict_get sd ''status'') (dict_get data ''status''),
           sale_type = py_or (dict_get sd ''sale_type'') (dict_get data ''sale_type''),
           sold_at = py_or (dict_get sd ''sold_at'') (dict_get data ''sold_at'')\<rparr>"
  have get_d: "\<And>k. k \<noteq> ''accounting'' \<Longrightarrow> dict_get ?d k = dict_get data k"
    by (simp add: dict_get_def map_of_dict_setdefault_other)
  from assms sd obtain s1 s3 d1 where
    e1: "ensure_defaults s0 = Inr s1" and
    e2: "legacy_sale_type ?d (if status s1 = PNone
          then s1\<lparr>status := PStr ACCOUNT_STATUS_AGENT_STOCK\<rparr> else s1) = Inr s3" and
    e3: "ensure_defaults (legacy_status ?d s3) = Inr st" and
    e4: "write_accounting ?d st = Inr d1" and
    e5: "sync_legacy_flags d1 st = Inr data'"
    by (auto simp: ensure_accounting_def Let_def err_bind_Inr_iff get_d s0_def)
  have k1: "known_status (status s1)" using ensure_defaults_known(1) [OF e1] .
  then have n1: "status s1 \<noteq> PNone" using known_status_truthy by blast
  from e2 n1 have e2': "legacy_sale_type ?d s1 = Inr s3" by simp
  have "status s3 = status s1" using legacy_sale_type_Inr(3) [OF e2'] .
  then have "truthy (status s3)" using k1 known_status_truthy by simp
  then have e3': "ensure_defaults s3 = Inr st" using e3 by (simp add: legacy_status_id)
  show ?thesis using that [OF sd s0_def e1 e2' e3' e4 e5] .
qed


lemma dict_get_setdefault_same:
  "dict_get (dict_setdefault d k v) k = dict_get_default d k v"
  by (auto simp: dict_get_def dict_get_default_def dict_setdefault_def has_key_def map_of_dict_set)

lemma stored_status_eq:
  "dict_get (dict_setdefault data ''accounting'' (PDict [])) ''accounting'' = PDict sd \<Longrightarrow>
   stored_status data = py_or (dict_get sd ''status'') (dict_get data ''status'')"
  by (simp add: stored_status_def dict_get_setdefault_same)

lemma dict_get_dict_set: "dict_get (dict_set d k v) k' = (if k' = k then v else dict_get d k')"
  by (simp add: dict_get_def map_of_dict_set)

lemma dict_get_state_items:
  "dict_get (dict_update sd (state_items st)) ''owner'' = owner st"
  "dict_get (dict_update sd (state_items st)) ''manager'' = manager st"
  "dict_get (dict_update sd (state_items st)) ''status'' = status st"
  "dict_get (dict_update sd (state_items st)) ''sale_type'' = sale_type st"
  "dict_get (dict_update sd (state_items st)) ''sold_at'' = sold_at st"
  by (simp_all add: dict_update_def state_items_def dict_get_dict_set)

lemma write_accounting_Inr:
  assumes "write_accounting d st = Inr d1"
  obtains sd where "dict_get d ''accounting'' = PDict sd"
    and "d1 = dict_set d ''accounting'' (PDict (dict_update sd (state_items st)))"
  using assms by (auto simp: write_accounting_def split: pyval.splits)

lemma sync_status_flags_other:
  assumes "k \<noteq> ''forsale''" "k \<noteq> ''distribution_tag''" "k \<noteq> ''distributor_forsale''"
    "k \<noteq> ''distributor_sold''" "k \<noteq> ''assigned_distributor''"
  shows "map_of (sync_status_flags d st) k = map_of d k"
  using assms by (simp add: sync_status_flags_def Let_def map_of_dict_set map_of_dict_pop)

lemma sync_sale_type_other:
  "k \<noteq> ''sale_type'' \<Longrightarrow> map_of (sync_sale_type d st) k = map_of d k"
  by (simp add: sync_sale_type_def map_of_dict_set map_of_dict_pop)

lemma sync_sold_at_other:
  "k \<noteq> ''sold_at'' \<Longrightarrow> map_of (sync_sold_at d st) k = map_of d k"
  by (simp add: sync_sold_at_def map_of_dict_set)

lemma sync_legacy_flags_Inr:
  assumes "sync_legacy_flags d st = Inr d'"
  obtains "has_business_role d = Inr True" and "d' = d"
  | "has_business_role d = Inr False" and
    "d' = sync_sold_at (sync_sale_type (sync_status_flags
            (dict_set (dict_set d ''owner'' (owner st)) ''manager'' (manager st)) st) st) st"
  using assms by (auto simp: sync_legacy_flags_def err_bind_Inr_iff Let_def split: if_splits)

lemma sync_legacy_flags_other:
  assumes "sync_legacy_flags d st = Inr d'" and "k \<notin> mirror_keys"
  shows "map_of d' k = map_of d k"
  using assms(1)
proof (cases rule: sync_legacy_flags_Inr)
  case 1
  then show ?thesis by simp
next
  case 2
  from assms(2) have "k \<noteq> ''owner''" "k \<noteq> ''manager''" "k \<noteq> ''forsale''"
    "k \<noteq> ''distribution_tag''" "k \<noteq> ''distributor_forsale''" "k \<noteq> ''distributor_sold''"
    "k \<noteq> ''assigned_distributor''" "k \<noteq> ''sale_type''" "k \<noteq> ''sold_at''"
    by (simp_all add: mirror_keys_def)
  then show ?thesis
    by (simp add: 2 sync_sold_at_other sync_sale_type_other sync_status_flags_other map_of_dict_set)
qed

lemma ensure_accounting_status:
  assumes "ensure_accounting data = Inr (data', st)"
  shows "known_status (status st)"
    and "status st = (if known_status (stored_status data) then stored_status data
                      else PStr ACCOUNT_STATUS_AGENT_STOCK)"
    and "dict_get (accounting_of data') ''status'' = status st"
proof -
  from assms obtain sd s0 s1 s3 d1 where
    sd: "dict_get (dict_setdefault data ''accounting'' (PDict [])) ''accounting'' = PDict sd" and
    s0: "s0 = \<lparr>owner = py_or (dict_get sd ''owner'') (dict_get data ''owner''),
           manager = py_or (dict_get sd ''manager'')
                       (py_or (dict_get data ''manager'')
                         (py_or (dict_get data ''assigned_distributor'') (dict_get data ''owner''))),
           status = py_or (dict_get sd ''status'') (dict_get data ''status''),
           sale_type = py_or (dict_get sd ''sale_type'') (dict_get data ''sale_type''),
           sold_at = py_or (dict_get sd ''sold_at'') (dict_get data ''sold_at'')\<rparr>" and
    e1: "ensure_defaults s0 = Inr s1" and
    e2: "legacy_sale_type (dict_setdefault data ''accounting'' (PDict [])) s1 = Inr s3" and
    e3: "ensure_defaults s3 = Inr st" and
    e4: "write_accounting (dict_setdefault data ''accounting'' (PDict [])) st = Inr d1" and
    e5: "sync_legacy_flags d1 st = Inr data'"
    by (rule ensure_accounting_Inr)
  show k: "known_status (status st)" using ensure_defaults_known(1) [OF e3] .
  have "status s0 = stored_status data" using stored_status_eq [OF sd] s0 by simp
  moreover have "status s3 = status s1" using legacy_sale_type_Inr(3) [OF e2] .
  moreover have "known_status (status s1)" using ensure_defaults_known(1) [OF e1] .
  ultimately show "status st = (if known_status (stored_status data) then stored_status data
                      else PStr ACCOUNT_STATUS_AGENT_STOCK)"
    using ensure_defaults_Inr(3) [OF e1] ensure_defaults_Inr(3) [OF e3] by simp
  from e4 obtain sd' where
    d1: "d1 = dict_set (dict_setdefault data ''accounting'' (PDict [])) ''accounting''
               (PDict (dict_update sd' (state_items st)))"
    by (rule write_accounting_Inr)
  have "map_of data' ''accounting'' = map_of d1 ''accounting''"
    using sync_legacy_flags_other [OF e5] by (simp add: mirror_keys_def)
  then have "accounting_of data' = dict_update sd' (state_items st)"
    by (simp add: accounting_of_def dict_get_def d1 map_of_dict_set)
  then show "dict_get (accounting_of data') ''status'' = status st"
    by (simp add: dict_get_state_items)
qed

lemma flagged_record_run:
  "ensure_accounting flagged_record = Inr (flagged_record_after, stock_state_a1)"
  by code_simp

section \<open>Ledger entries: basic facts\<close>

lemma int_overflows_0 [simp]: "\<not> int_overflows 0"
  by (simp add: int_overflows_def)

lemma int_overflows_1 [simp]: "\<not> int_overflows 1"
  by (simp add: int_overflows_def)

lemma float_of_int_0 [simp]: "float_of_int 0 = Inr 0"
  by (simp add: float_of_int_def fl_def)

lemma float_div_int_Inr:
  "\<not> int_overflows n \<Longrightarrow> n \<noteq> 0 \<Longrightarrow>
     float_div_int x n = Inr (float_div x (fl (of_int n)))"
  by (simp add: float_div_int_def float_of_int_def)

lemma float_div_int_overflow: "int_overflows n \<Longrightarrow> float_div_int x n = Inl OverflowError"
  by (simp add: float_div_int_def float_of_int_def)



text \<open>The legacy price of an entry whose quantity converts to a float.\<close>

lemma to_dict_price:
  "\<not> int_overflows (quantity e) \<Longrightarrow>
     (if quantity e \<noteq> 0 then float_div_int (amount e) (quantity e) else Inr 0)
       = Inr (if quantity e = 0 then 0 else float_div (amount e) (fl (of_int (quantity e))))"
  by (simp add: float_div_int_Inr)

lemma to_dict_with_price:
  assumes "(if quantity e \<noteq> 0 then float_div_int (amount e) (quantity e) else Inr 0) = Inr p"
  shows "\<exists>d. to_dict e = Inr d \<and>
           (\<forall>k. k \<noteq> ''agent'' \<longrightarrow> map_of d k = map_of (to_dict_data e p) k)"
  unfolding to_dict_def assms
  by (simp add: Let_def map_of_dict_setdefault_other)

lemma to_dict_Inr:
  assumes "to_dict e = Inr d"
  obtains p where
    "(if quantity e \<noteq> 0 then float_div_int (amount e) (quantity e) else Inr 0) = Inr p"
    and "\<forall>k. k \<noteq> ''agent'' \<longrightarrow> map_of d k = map_of (to_dict_data e p) k"
proof -
  from assms obtain p where
    p: "(if quantity e \<noteq> 0 then float_div_int (amount e) (quantity e) else Inr 0) = Inr p"
    unfolding to_dict_def by (auto simp: err_bind_Inr_iff)
  from to_dict_with_price [OF p] assms
  have "\<forall>k. k \<noteq> ''agent'' \<longrightarrow> map_of d k = map_of (to_dict_data e p) k" by auto
  then show ?thesis using that [OF p] by blast
qed

lemma to_dict_overflow: "int_overflows (quantity e) \<Longrightarrow> to_dict e = Inl OverflowError"
proof -
  assume o: "int_overflows (quantity e)"
  then have "quantity e \<noteq> 0" by auto
  then show ?thesis using o by (simp add: to_dict_def float_div_int_overflow)
qed

lemma to_dict_data_lookup:
  "map_of (to_dict_data e p) =
     [''id'' \<mapsto> entry_id e, ''time'' \<mapsto> time e, ''actor'' \<mapsto> actor e,
      ''actor_role'' \<mapsto> actor_role e, ''transaction_type'' \<mapsto> transaction_type e,
      ''direction'' \<mapsto> direction e, ''amount'' \<mapsto> PFloat (py_round2 (amount e)),
      ''quantity'' \<mapsto> PInt (quantity e), ''product'' \<mapsto> product e,
      ''account_username'' \<mapsto> account_username e, ''counterparty'' \<mapsto> counterparty e,
      ''sale_type'' \<mapsto> entry_sale_type e, ''metadata'' \<mapsto> metadata e,
      ''admin'' \<mapsto> actor e, ''role'' \<mapsto> actor_role e, ''price'' \<mapsto> PFloat (py_round2 p),
      ''count'' \<mapsto> PInt (quantity e), ''revenue'' \<mapsto> PFloat (py_round2 (amount e))]"
  by (rule ext) (simp add: to_dict_data_def)

lemma to_dict_get:
  assumes "to_dict e = Inr d" and "k \<noteq> ''agent''" and "k \<noteq> ''price''"
  shows "dict_get d k = dict_get (to_dict_data e 0) k"
proof -
  from assms(1) obtain p where
    "\<forall>k. k \<noteq> ''agent'' \<longrightarrow> map_of d k = map_of (to_dict_data e p) k"
    by (rule to_dict_Inr)
  then have "map_of d k = map_of (to_dict_data e p) k" using assms(2) by blast
  also have "\<dots> = map_of (to_dict_data e 0) k" using assms(3) by (simp add: to_dict_data_lookup)
  finally show ?thesis by (simp add: dict_get_def)
qed

lemma new_entry_Inr:
  assumes "new_entry env uuid4 now kw = Inr e"
  shows "direction e = arg_or (kw_direction kw) (PStr ''in'')"
    and "py_float env (py_or (kw_amount kw) (PInt 0)) = Inr (amount e)"
    and "py_int env (py_or (arg_or (kw_quantity kw) (PInt 1)) (PInt 0)) = Inr (quantity e)"
    and "transaction_type e = kw_transaction_type kw"
    and "actor e = kw_actor kw" and "actor_role e = kw_actor_role kw"
    and "counterparty e = arg_or (kw_counterparty kw) PNone"
    and "entry_sale_type e = arg_or (kw_sale_type kw) PNone"
    and "metadata e = py_or (arg_or (kw_metadata kw) PNone) (PDict [])"
  using assms by (auto simp: new_entry_def err_bind_Inr_iff)

lemma purchase_entry_run:
  "build_ledger_entry unused_builtins ''id-1'' ''2024-05-01 10:00:00'' purchase_kwargs =
     Inr purchase_entry"
  by code_simp

lemma round_half_even_of_int [simp]: "round_half_even (of_int n) = n"
  by (simp add: round_half_even_def)

lemma py_round2_whole_cents: "whole_cents x \<Longrightarrow> py_round2 x = x"
proof -
  assume w: "whole_cents x"
  then have e: "of_int \<lfloor>x * 100\<rfloor> = x * 100" unfolding whole_cents_def .
  have "round_half_even (x * 100) = \<lfloor>x * 100\<rfloor>"
    using round_half_even_of_int [of "\<lfloor>x * 100\<rfloor>"] unfolding e .
  then have "py_round2 x = of_int \<lfloor>x * 100\<rfloor> / 100" by (simp only: py_round2_def)
  then show ?thesis unfolding e by simp
qed

lemma whole_cents_py_round2: "whole_cents (py_round2 x)"
  by (simp add: whole_cents_def py_round2_def)

lemma py_round2_idem: "py_round2 (py_round2 x) = py_round2 x"
  by (simp add: py_round2_whole_cents whole_cents_py_round2)



lemma py_int_err: "py_int env v = Inl e \<Longrightarrow> e = TypeError \<or> e = ValueError"
  by (cases v) (auto split: option.splits)

lemma except_type_value_Inr [simp]: "except_type_value (Inr x) h = Inr x"
  by (simp add: except_type_value_def)

lemma except_type_value_total:
  assumes "\<And>e. body = Inl e \<Longrightarrow> e = TypeError \<or> e = ValueError"
  shows "except_type_value body (Inr x) = Inr (case body of Inr y \<Rightarrow> y | Inl e \<Rightarrow> x)"
  using assms by (cases body) (auto simp: except_type_value_def)

lemma dict_get_default_present:
  "has_key d k \<Longrightarrow> dict_get_default d k v = dict_get d k"
  by (auto simp: has_key_def dict_get_default_def dict_get_def)



lemma get_quantity_total: "\<exists>q. get_quantity env raw = Inr q"
  unfolding get_quantity_def
  by (subst except_type_value_total) (auto dest: py_int_err)


lemma get_direction_total:
  "hashable (dict_get raw ''direction'') \<Longrightarrow> \<exists>v. get_direction raw = Inr v"
  by (simp add: get_direction_def Let_def in_set_def)

lemma get_sale_type_total:
  "hashable (dict_get raw ''sale_type'') \<Longrightarrow> \<exists>v. get_sale_type raw = Inr v"
  by (simp add: get_sale_type_def Let_def in_set_def)

lemma metadata_total:
  "plain_raw raw \<Longrightarrow> \<exists>md. py_dict env (dict_get_default raw ''metadata'' (PDict [])) = Inr md"
  by (auto simp: plain_raw_def split: pyval.splits)

lemma from_raw_Inr:
  assumes "from_raw env uuid4 now raw = Inr e"
  shows "get_direction raw = Inr (direction e)"
    and "get_amount env raw = Inr (amount e)"
    and "get_quantity env raw = Inr (quantity e)"
    and "get_sale_type raw = Inr (entry_sale_type e)"
  using assms by (auto simp: from_raw_def Let_def err_bind_Inr_iff)

lemma from_raw_returns:
  assumes p: "plain_raw raw" and a: "get_amount env raw = Inr a"
  shows "\<exists>e. from_raw env uuid4 now raw = Inr e"
proof -
  obtain dv where dv: "get_direction raw = Inr dv"
    using get_direction_total p by (auto simp: plain_raw_def)
  obtain sv where sv: "get_sale_type raw = Inr sv"
    using get_sale_type_total p by (auto simp: plain_raw_def)
  obtain md where md: "py_dict env (dict_get_default raw ''metadata'' (PDict [])) = Inr md"
    using metadata_total [OF p] by blast
  obtain q where q: "get_quantity env raw = Inr q" using get_quantity_total by blast
  show ?thesis by (simp add: from_raw_def Let_def dv sv md a q)
qed














lemma py_float_or_PFloat: "py_float env (py_or (PFloat r) (PInt 0)) = Inr r"
  by (simp add: py_or_def)

lemma py_int_or_PInt: "py_int env (py_or (PInt n) (PInt 0)) = Inr n"
  by (simp add: py_or_def)

lemma to_dict_data_get:
  "dict_get (to_dict_data e p) ''direction'' = direction e"
  "dict_get (to_dict_data e p) ''amount'' = PFloat (py_round2 (amount e))"
  "dict_get (to_dict_data e p) ''quantity'' = PInt (quantity e)"
  "dict_get (to_dict_data e p) ''sale_type'' = entry_sale_type e"
  "dict_get (to_dict_data e p) ''metadata'' = metadata e"
  "dict_get (to_dict_data e p) ''transaction_type'' = transaction_type e"
  "dict_get (to_dict_data e p) ''actor'' = actor e"
  "dict_get (to_dict_data e p) ''counterparty'' = counterparty e"
  "dict_get (to_dict_data e p) ''actor_role'' = actor_role e"
  by (simp_all add: dict_get_def to_dict_data_lookup)

lemma to_dict_has_key:
  assumes "to_dict e = Inr d" and "k \<in> set entry_keys"
  shows "has_key d k"
proof -
  from assms(2) have n: "k \<noteq> ''agent''" by (auto simp: entry_keys_def)
  from assms(1) obtain p where
    "\<forall>k. k \<noteq> ''agent'' \<longrightarrow> map_of d k = map_of (to_dict_data e p) k"
    by (rule to_dict_Inr)
  then have "map_of d k = map_of (to_dict_data e p) k" using n by blast
  then show ?thesis using assms(2)
    by (auto simp: has_key_def to_dict_data_lookup entry_keys_def)
qed

lemma round_trip_entry:
  assumes d: "to_dict e = Inr d"
    and dir: "direction e = PStr ''in'' \<or> direction e = PStr ''out''"
    and st: "hashable (entry_sale_type e)"
    and md: "\<exists>md. metadata e = PDict md"
  shows "\<exists>e'. from_raw env uuid4 now d = Inr e' \<and> quantity e' = quantity e \<and>
              direction e' = direction e \<and> amount e' = py_round2 (amount e)"
proof -
  note g = to_dict_get [OF d]
  have gd: "dict_get d ''direction'' = direction e" using g [of "''direction''"]
    by (simp add: to_dict_data_get)
  have ga: "dict_get d ''amount'' = PFloat (py_round2 (amount e))" using g [of "''amount''"]
    by (simp add: to_dict_data_get)
  have gq: "dict_get d ''quantity'' = PInt (quantity e)" using g [of "''quantity''"]
    by (simp add: to_dict_data_get)
  have gs: "dict_get d ''sale_type'' = entry_sale_type e" using g [of "''sale_type''"]
    by (simp add: to_dict_data_get)
  have gm: "dict_get d ''metadata'' = metadata e" using g [of "''metadata''"]
    by (simp add: to_dict_data_get)
  have ka: "has_key d ''amount''" and kq: "has_key d ''quantity''" and km: "has_key d ''metadata''"
    using to_dict_has_key [OF d] by (simp_all add: entry_keys_def)
  have p: "plain_raw d"
    using dir st md by (auto simp: plain_raw_def gd gs dict_get_default_present [OF km] gm)
  have am: "get_amount env d = Inr (py_round2 (amount e))"
    by (simp add: get_amount_def ka dict_get_default_present [OF ka] ga py_float_or_PFloat)
  obtain e' where e': "from_raw env uuid4 now d = Inr e'"
    using from_raw_returns [OF p am] by blast
  have "get_direction d = Inr (direction e)"
    using dir by (auto simp: get_direction_def gd in_set_def)
  then have r1: "direction e' = direction e" using from_raw_Inr(1) [OF e'] by simp
  from am have r2: "amount e' = py_round2 (amount e)" using from_raw_Inr(2) [OF e'] by simp
  have "get_quantity env d = Inr (quantity e)"
    by (simp add: get_quantity_def dict_get_default_present [OF kq] gq py_int_or_PInt)
  then have r3: "quantity e' = quantity e" using from_raw_Inr(3) [OF e'] by simp
  show ?thesis using e' r1 r2 r3 by blast
qed

lemma eighth_entry_run:
  "new_entry unused_builtins ''id-1'' ''2024-05-01 10:00:00'' eighth_kwargs = Inr eighth_entry"
  by code_simp

lemma eighth_dict_run: "to_dict eighth_entry = Inr eighth_dict"
  by code_simp

lemma eighth_build_run:
  "build_ledger_entry unused_builtins ''id-1'' ''2024-05-01 10:00:00'' eighth_kwargs = Inr eighth_dict"
  by (simp add: build_ledger_entry_def eighth_entry_run eighth_dict_run)

lemma eighth_back_run:
  "from_raw unused_builtins ''id-9'' ''2024-05-01 10:00:09'' eighth_dict = Inr eighth_entry_back"
  by code_simp

lemma purchase_new_run:
  "new_entry unused_builtins ''id-1'' ''2024-05-01 10:00:00'' purchase_kwargs
     = Inr purchase_entry_new"
  by code_simp

lemma purchase_back_run:
  "from_raw unused_builtins ''id-9'' ''2024-05-01 10:00:09'' purchase_entry = Inr purchase_entry_back"
  by code_simp


subsection \<open>The two entries of an approved application\<close>





subsection \<open>Entries at which the serialisation is evaluated\<close>

lemma huge_quantity_entry_run:
  "from_raw unused_builtins ''id-9'' ''2024-05-01 10:00:00'' [(''quantity'', PInt (10 ^ 309))]
     = Inr huge_quantity_entry"
  by code_simp

lemma huge_quantity_overflows: "int_overflows (quantity huge_quantity_entry)"
  by code_simp

lemma unit_less_dict_run: "to_dict unit_less_entry = Inr unit_less_dict"
  by code_simp

lemma bulk_dict_run: "to_dict bulk_entry = Inr bulk_dict"
  by code_simp

section \<open>The sale fields of the account state\<close>

text \<open>The record \<open>sold_record\<close> is what the sale by the distributor leaves: it is the result
  of the \<^verbatim>\<open>update_account_state\<close> call of \<^verbatim>\<open>distributor_mark_sold\<close> on an account in the
  distributor's stock.\<close>

lemma sold_record_reachable:
  "update_account_state stock_record (PStr ''d1'') (PStr ''d1'') (PStr ACCOUNT_STATUS_SOLD)
     (PStr SALE_TYPE_DISTRIBUTION) (PStr ''2024-05-01 10:00:00'')
   = Inr (sold_record,
          \<lparr>owner = PStr ''d1'', manager = PStr ''d1'', status = PStr ACCOUNT_STATUS_SOLD,
           sale_type = PStr SALE_TYPE_DISTRIBUTION, sold_at = PStr ''2024-05-01 10:00:00''\<rparr>)"
  by code_simp

text \<open>
  Claim C1 (the code departs from it). \<^verbatim>\<open>sold_at\<close> is to be set exactly when the status is
  \<^verbatim>\<open>sold\<close>, and the mark-unsold correction is to clear \<^verbatim>\<open>sold_at\<close> and \<^verbatim>\<open>sale_type\<close>.
  \<^verbatim>\<open>distributor_mark_unsold\<close> passes \<^verbatim>\<open>sale_type=None, sold_at=None\<close>, which
  \<^verbatim>\<open>update_account_state\<close> reads as "not passed": on the store with the sold account the
  status goes back to \<^verbatim>\<open>distributor_stock\<close>, while the state and the legacy fields keep the
  sale type and the sale time.
\<close>

theorem mark_unsold_keeps_sale_fields:
  "distributor_mark_unsold [(''u1'', PDict sold_record)] ''d1'' (PStr ''u1'') =
     Inr ([(''u1'', PDict
             [(''source'', PStr ''agent''), (''product'', PStr ''p1''), (''price'', PFloat 10),
              (''accounting'',
                 PDict [(''owner'', PStr ''d1''), (''manager'', PStr ''d1''),
                        (''status'', PStr ACCOUNT_STATUS_DISTRIBUTOR_STOCK),
                        (''sale_type'', PStr SALE_TYPE_DISTRIBUTION),
                        (''sold_at'', PStr ''2024-05-01 10:00:00'')]),
              (''owner'', PStr ''d1''), (''manager'', PStr ''d1''),
              (''forsale'', PBool False), (''distribution_tag'', PBool True),
              (''distributor_forsale'', PBool True), (''distributor_sold'', PBool False),
              (''sale_type'', PStr LABEL_DISTRIBUTION),
              (''sold_at'', PStr ''2024-05-01 10:00:00''),
              (''assigned_distributor'', PStr ''d1'')])],
          True)"
  by code_simp

section \<open>Normalising a raw ledger record\<close>




section \<open>The round trip of a built ledger entry\<close>

text \<open>
  Claim C4, as stated, fails: \<^verbatim>\<open>to_dict\<close> rounds the amount to 2 decimals, so an entry built
  with the amount 0.125 comes back from \<^verbatim>\<open>from_raw\<close> with the amount 0.12.
\<close>

theorem round_trip_changes_amount:
  "new_entry unused_builtins ''id-1'' ''2024-05-01 10:00:00'' eighth_kwargs = Inr eighth_entry \<and>
   to_dict eighth_entry = Inr eighth_dict \<and>
   from_raw unused_builtins ''id-9'' ''2024-05-01 10:00:09'' eighth_dict = Inr eighth_entry_back \<and>
   amount eighth_entry = 1 / 8 \<and> amount eighth_entry_back = 3 / 25 \<and>
   amount eighth_entry_back \<noteq> amount eighth_entry"
  using eighth_entry_run eighth_dict_run eighth_back_run
  by (simp add: eighth_entry_def eighth_entry_back_def)

text \<open>
  Claim C4, amended. For every entry that \<^verbatim>\<open>build_ledger_entry\<close> produces with the direction
  \<^verbatim>\<open>in\<close> or \<^verbatim>\<open>out\<close> (or none passed), a hashable sale type and metadata that is absent,
  \<^verbatim>\<open>None\<close> or a dict, \<^verbatim>\<open>from_raw\<close> of the dict returns an entry with the same quantity and
  direction, and with the amount rounded to 2 decimals: the amount is unchanged exactly when
  it is a multiple of 0.01 already.
\<close>

theorem round_trip_rounds_amount:
  assumes "build_ledger_entry env uuid4 now kw = Inr d"
    and "kw_direction kw = None \<or> kw_direction kw = Some (PStr ''in'')
         \<or> kw_direction kw = Some (PStr ''out'')"
    and "hashable (arg_or (kw_sale_type kw) PNone)"
    and "kw_metadata kw = None \<or> kw_metadata kw = Some PNone \<or> (\<exists>md. kw_metadata kw = Some (PDict md))"
  shows "\<exists>e e'. new_entry env uuid4 now kw = Inr e \<and> to_dict e = Inr d \<and>
           from_raw env uuid4' now' d = Inr e' \<and>
           quantity e' = quantity e \<and> direction e' = direction e \<and>
           amount e' = py_round2 (amount e) \<and>
           (whole_cents (amount e) \<longrightarrow> amount e' = amount e)"
proof -
  from assms(1) obtain e where e: "new_entry env uuid4 now kw = Inr e" and d: "to_dict e = Inr d"
    by (auto simp: build_ledger_entry_def err_bind_Inr_iff)
  have dir: "direction e = PStr ''in'' \<or> direction e = PStr ''out''"
    using assms(2) new_entry_Inr(1) [OF e] by (auto simp: arg_or_def)
  have st: "hashable (entry_sale_type e)"
    using assms(3) new_entry_Inr(8) [OF e] by simp
  have md: "\<exists>md. metadata e = PDict md"
    using assms(4) new_entry_Inr(9) [OF e] by (auto simp: arg_or_def py_or_def)
  from round_trip_entry [OF d dir st md, of env uuid4' now']
  obtain e' where "from_raw env uuid4' now' d = Inr e'" "quantity e' = quantity e"
    "direction e' = direction e" "amount e' = py_round2 (amount e)" by blast
  then show ?thesis using e d py_round2_whole_cents [of "amount e"] by auto
qed

theorem round_trip_rounds_amount_witness:
  "build_ledger_entry unused_builtins ''id-1'' ''2024-05-01 10:00:00'' eighth_kwargs
     = Inr eighth_dict \<and>
   kw_direction eighth_kwargs = None \<and> hashable (arg_or (kw_sale_type eighth_kwargs) PNone) \<and>
   kw_metadata eighth_kwargs = None \<and>
   from_raw unused_builtins ''id-9'' ''2024-05-01 10:00:09'' eighth_dict = Inr eighth_entry_back \<and>
   quantity eighth_entry_back = quantity eighth_entry \<and>
   direction eighth_entry_back = direction eighth_entry \<and>
   amount eighth_entry_back = py_round2 (amount eighth_entry) \<and>
   build_ledger_entry unused_builtins ''id-1'' ''2024-05-01 10:00:00'' purchase_kwargs
     = Inr purchase_entry \<and>
   whole_cents (amount purchase_entry_new) \<and>
   from_raw unused_builtins ''id-9'' ''2024-05-01 10:00:09'' purchase_entry
     = Inr purchase_entry_back \<and>
   amount purchase_entry_back = amount purchase_entry_new"
proof -
  have h1: "kw_direction eighth_kwargs = None \<or> kw_direction eighth_kwargs = Some (PStr ''in'')
         \<or> kw_direction eighth_kwargs = Some (PStr ''out'')"
    by (simp add: eighth_kwargs_def)
  have h2: "hashable (arg_or (kw_sale_type eighth_kwargs) PNone)"
    by (simp add: eighth_kwargs_def arg_or_def)
  have h3: "kw_metadata eighth_kwargs = None \<or> kw_metadata eighth_kwargs = Some PNone
         \<or> (\<exists>md. kw_metadata eighth_kwargs = Some (PDict md))"
    by (simp add: eighth_kwargs_def)
  have g1: "kw_direction purchase_kwargs = None \<or> kw_direction purchase_kwargs = Some (PStr ''in'')
         \<or> kw_direction purchase_kwargs = Some (PStr ''out'')"
    by (simp add: purchase_kwargs_def)
  have g2: "hashable (arg_or (kw_sale_type purchase_kwargs) PNone)"
    by (simp add: purchase_kwargs_def arg_or_def)
  have g3: "kw_metadata purchase_kwargs = None \<or> kw_metadata purchase_kwargs = Some PNone
         \<or> (\<exists>md. kw_metadata purchase_kwargs = Some (PDict md))"
    by (simp add: purchase_kwargs_def)
  have w: "whole_cents (amount purchase_entry_new)"
    by (simp add: purchase_entry_new_def whole_cents_def)
  show ?thesis
    using round_trip_rounds_amount [OF eighth_build_run h1 h2 h3,
            of "''id-9''" "''2024-05-01 10:00:09''"]
      round_trip_rounds_amount [OF purchase_entry_run g1 g2 g3,
            of "''id-9''" "''2024-05-01 10:00:09''"]
      eighth_build_run eighth_entry_run eighth_back_run purchase_entry_run purchase_new_run
      purchase_back_run h2 w
    by (auto simp: eighth_kwargs_def)
qed

section \<open>The direction of a built ledger entry\<close>

text \<open>
  Claim C5, as stated, fails: \<^verbatim>\<open>build_ledger_entry\<close> for an \<^verbatim>\<open>agent_purchase\<close> without an
  explicit direction returns the direction \<^verbatim>\<open>in\<close>, the default of the signature, not
  \<^verbatim>\<open>out\<close>.
\<close>

theorem agent_purchase_default_direction:
  "kw_transaction_type purchase_kwargs = PStr TRANSACTION_AGENT_PURCHASE \<and>
   kw_direction purchase_kwargs = None \<and>
   build_ledger_entry unused_builtins ''id-1'' ''2024-05-01 10:00:00'' purchase_kwargs
     = Inr purchase_entry \<and>
   dict_get purchase_entry ''direction'' = PStr ''in'' \<and>
   dict_get purchase_entry ''direction'' \<noteq> PStr ''out''"
  using purchase_entry_run by (simp add: purchase_kwargs_def purchase_entry_def dict_get_def)

text \<open>
  Claim C5, amended. \<^verbatim>\<open>build_ledger_entry\<close> does not derive the direction from the
  transaction type: the returned entry has the direction that the caller passes, and
  \<^verbatim>\<open>in\<close> when the caller passes none, for every transaction type, \<^verbatim>\<open>agent_purchase\<close>
  included.
\<close>

theorem build_ledger_entry_direction:
  "build_ledger_entry env uuid4 now kw = Inr d \<Longrightarrow>
     dict_get d ''direction'' = (case kw_direction kw of None \<Rightarrow> PStr ''in'' | Some v \<Rightarrow> v)"
proof -
  assume "build_ledger_entry env uuid4 now kw = Inr d"
  then obtain e where e: "new_entry env uuid4 now kw = Inr e" and d: "to_dict e = Inr d"
    by (auto simp: build_ledger_entry_def err_bind_Inr_iff)
  have "dict_get d ''direction'' = direction e"
    using to_dict_get [OF d, of "''direction''"] by (simp add: dict_get_def to_dict_data_lookup)
  then show ?thesis using new_entry_Inr(1) [OF e] by (simp add: arg_or_def)
qed

theorem build_ledger_entry_direction_witness:
  "build_ledger_entry unused_builtins ''id-1'' ''2024-05-01 10:00:00'' purchase_kwargs
     = Inr purchase_entry \<and>
   dict_get purchase_entry ''direction'' =
     (case kw_direction purchase_kwargs of None \<Rightarrow> PStr ''in'' | Some v \<Rightarrow> v)"
  using build_ledger_entry_direction [OF purchase_entry_run] purchase_entry_run by simp

section \<open>The paired entries of an approved application\<close>




section \<open>The percent change of a KPI\<close>

text \<open>
  Claim C8. The percent-change KPI function: when the previous value is 0 the result is 100
  for a positive current value and 0 for a current value that is 0 or negative; otherwise
  the result is (current - previous) / previous * 100. The function returns in every case:
  the division is never reached with a zero divisor.
\<close>

theorem pct_change_cases:
  "(prev = 0 \<and> 0 < cur \<longrightarrow> pct_change cur prev = Inr 100) \<and>
   (prev = 0 \<and> cur \<le> 0 \<longrightarrow> pct_change cur prev = Inr 0) \<and>
   (prev \<noteq> 0 \<longrightarrow> pct_change cur prev = Inr ((cur - prev) / prev * 100))"
  by (simp add: pct_change_def py_truediv_def)

theorem pct_change_cases_witness:
  "pct_change 10 0 = Inr 100 \<and> pct_change 0 0 = Inr 0 \<and> pct_change 15 10 = Inr 50"
  using pct_change_cases [of 0 10] pct_change_cases [of 0 0] pct_change_cases [of 10 15]
  by simp

text \<open>
  Claim C9. In \<^verbatim>\<open>ensure_accounting\<close> the status fallback from the legacy flags is unreachable:
  \<^verbatim>\<open>ensure_defaults\<close> runs first and leaves a recognised status, so the state that reaches the
  test \<^verbatim>\<open>if not state.status\<close> has a true status and the fallback leaves it as it is. Hence
  every record without a recognised status ends up with status \<^verbatim>\<open>agent_stock\<close>, in the
  returned state and in the \<^verbatim>\<open>accounting\<close> dict, whatever \<^verbatim>\<open>distributor_forsale\<close> and
  \<^verbatim>\<open>forsale\<close> hold.
\<close>

theorem status_fallback_unreachable:
  "(ensure_defaults s0 = Inr s1 \<and>
    legacy_sale_type d (if status s1 = PNone
                        then s1\<lparr>status := PStr ACCOUNT_STATUS_AGENT_STOCK\<rparr> else s1) = Inr s3
      \<longrightarrow> truthy (status s3) \<and> legacy_status d s3 = s3) \<and>
   (ensure_accounting data = Inr (data', st) \<and> \<not> known_status (stored_status data)
      \<longrightarrow> status st = PStr ACCOUNT_STATUS_AGENT_STOCK \<and>
          dict_get (accounting_of data') ''status'' = PStr ACCOUNT_STATUS_AGENT_STOCK)"
proof (intro conjI impI)
  assume a: "ensure_defaults s0 = Inr s1 \<and>
    legacy_sale_type d (if status s1 = PNone
                        then s1\<lparr>status := PStr ACCOUNT_STATUS_AGENT_STOCK\<rparr> else s1) = Inr s3"
  then have k1: "known_status (status s1)" using ensure_defaults_known(1) by blast
  then have "status s1 \<noteq> PNone" using known_status_truthy by blast
  with a have "legacy_sale_type d s1 = Inr s3" by simp
  then have "status s3 = status s1" by (rule legacy_sale_type_Inr(3))
  then show t: "truthy (status s3)" using k1 known_status_truthy by simp
  then show "legacy_status d s3 = s3" by (rule legacy_status_id)
next
  assume b: "ensure_accounting data = Inr (data', st) \<and> \<not> known_status (stored_status data)"
  then show s: "status st = PStr ACCOUNT_STATUS_AGENT_STOCK"
    using ensure_accounting_status(2) [of data data' st] by simp
  from b show "dict_get (accounting_of data') ''status'' = PStr ACCOUNT_STATUS_AGENT_STOCK"
    using ensure_accounting_status(3) [of data data' st] s by simp
qed

theorem status_fallback_unreachable_witness:
  "ensure_defaults (stock_state_a1\<lparr>status := PStr ''bogus''\<rparr>) = Inr stock_state_a1 \<and>
   legacy_sale_type flagged_record stock_state_a1 = Inr stock_state_a1 \<and>
   truthy (dict_get flagged_record ''distributor_forsale'') \<and>
   in_tuple (dict_get flagged_record ''forsale'') [PBool False, PInt 0, PStr ''false'', PStr ''False''] \<and>
   \<not> known_status (stored_status flagged_record) \<and>
   ensure_accounting flagged_record = Inr (flagged_record_after, stock_state_a1) \<and>
   legacy_status flagged_record stock_state_a1 = stock_state_a1 \<and>
   status stock_state_a1 = PStr ACCOUNT_STATUS_AGENT_STOCK \<and>
   dict_get (accounting_of flagged_record_after) ''status'' = PStr ACCOUNT_STATUS_AGENT_STOCK"
proof -
  have h1: "ensure_defaults (stock_state_a1\<lparr>status := PStr ''bogus''\<rparr>) = Inr stock_state_a1"
    by code_simp
  have h2: "legacy_sale_type flagged_record stock_state_a1 = Inr stock_state_a1"
    by code_simp
  have h3: "truthy (dict_get flagged_record ''distributor_forsale'')"
    by code_simp
  have h4: "in_tuple (dict_get flagged_record ''forsale'')
              [PBool False, PInt 0, PStr ''false'', PStr ''False'']"
    by code_simp
  have h5: "\<not> known_status (stored_status flagged_record)"
    by code_simp
  have h6: "status stock_state_a1 \<noteq> PNone"
    by (simp add: stock_state_a1_def)
  show ?thesis
    using status_fallback_unreachable [of "stock_state_a1\<lparr>status := PStr ''bogus''\<rparr>"
        stock_state_a1 flagged_record stock_state_a1 flagged_record flagged_record_after
        stock_state_a1]
      h1 h2 h3 h4 h5 h6 flagged_record_run
    by simp
qed

section \<open>The serialisation of a ledger entry\<close>

text \<open>
  Claim C10, as stated, fails: \<^verbatim>\<open>LedgerEntry.to_dict\<close> is not total. The guard keeps the
  division from a zero quantity, but \<^verbatim>\<open>self.amount / self.quantity\<close> converts the quantity to
  a float, and for an int beyond the double range that conversion raises \<^verbatim>\<open>OverflowError\<close>.
  \<^verbatim>\<open>from_raw\<close> makes such an entry of the raw record \<^verbatim>\<open>{"quantity": 10**309}\<close>.
\<close>

theorem to_dict_overflow_error:
  "from_raw unused_builtins ''id-9'' ''2024-05-01 10:00:00'' [(''quantity'', PInt (10 ^ 309))]
     = Inr huge_quantity_entry \<and>
   quantity huge_quantity_entry = 10 ^ 309 \<and>
   to_dict huge_quantity_entry = Inl OverflowError"
  using huge_quantity_entry_run to_dict_overflow [OF huge_quantity_overflows]
  by (simp add: huge_quantity_entry_def)

text \<open>
  Claim C10, amended. \<^verbatim>\<open>to_dict\<close> returns a dict for every entry whose quantity is not an int
  beyond the double range, and raises \<^verbatim>\<open>OverflowError\<close> for every other entry. For quantity 0
  the division is not reached and the price is 0.0; otherwise the price is the double
  quotient of the amount by the quantity, rounded to 2 decimals. The dict holds the thirteen
  canonical fields and the legacy mirrors \<^verbatim>\<open>admin\<close> = actor, \<^verbatim>\<open>role\<close> = actor_role,
  \<^verbatim>\<open>count\<close> = quantity and \<^verbatim>\<open>revenue\<close> = amount rounded to 2 decimals; the \<^verbatim>\<open>amount\<close> field is
  rounded to 2 decimals as well.
\<close>

theorem to_dict_total:
  "(int_overflows (quantity e) \<longrightarrow> to_dict e = Inl OverflowError) \<and>
   (\<not> int_overflows (quantity e) \<longrightarrow>
    (\<exists>d. to_dict e = Inr d \<and>
       list_all (has_key d) entry_keys \<and>
       dict_get d ''price'' =
         PFloat (if quantity e = 0 then 0
                 else py_round2 (float_div (amount e) (fl (of_int (quantity e))))) \<and>
       dict_get d ''admin'' = actor e \<and> dict_get d ''role'' = actor_role e \<and>
       dict_get d ''count'' = PInt (quantity e) \<and>
       dict_get d ''revenue'' = PFloat (py_round2 (amount e)) \<and>
       dict_get d ''id'' = entry_id e \<and> dict_get d ''time'' = time e \<and>
       dict_get d ''actor'' = actor e \<and> dict_get d ''actor_role'' = actor_role e \<and>
       dict_get d ''transaction_type'' = transaction_type e \<and>
       dict_get d ''direction'' = direction e \<and>
       dict_get d ''amount'' = PFloat (py_round2 (amount e)) \<and>
       dict_get d ''quantity'' = PInt (quantity e) \<and>
       dict_get d ''product'' = product e \<and>
       dict_get d ''account_username'' = account_username e \<and>
       dict_get d ''counterparty'' = counterparty e \<and>
       dict_get d ''sale_type'' = entry_sale_type e \<and>
       dict_get d ''metadata'' = metadata e))"
proof (intro conjI impI)
  assume "int_overflows (quantity e)"
  then show "to_dict e = Inl OverflowError" by (rule to_dict_overflow)
next
  assume r: "\<not> int_overflows (quantity e)"
  let ?p = "if quantity e = 0 then 0 else float_div (amount e) (fl (of_int (quantity e)))"
  obtain d where d: "to_dict e = Inr d"
    and look: "\<And>k. k \<noteq> ''agent'' \<Longrightarrow> map_of d k = map_of (to_dict_data e ?p) k"
    using to_dict_with_price [OF to_dict_price [OF r]] by blast
  show "\<exists>d. to_dict e = Inr d \<and>
       list_all (has_key d) entry_keys \<and>
       dict_get d ''price'' =
         PFloat (if quantity e = 0 then 0
                 else py_round2 (float_div (amount e) (fl (of_int (quantity e))))) \<and>
       dict_get d ''admin'' = actor e \<and> dict_get d ''role'' = actor_role e \<and>
       dict_get d ''count'' = PInt (quantity e) \<and>
       dict_get d ''revenue'' = PFloat (py_round2 (amount e)) \<and>
       dict_get d ''id'' = entry_id e \<and> dict_get d ''time'' = time e \<and>
       dict_get d ''actor'' = actor e \<and> dict_get d ''actor_role'' = actor_role e \<and>
       dict_get d ''transaction_type'' = transaction_type e \<and>
       dict_get d ''direction'' = direction e \<and>
       dict_get d ''amount'' = PFloat (py_round2 (amount e)) \<and>
       dict_get d ''quantity'' = PInt (quantity e) \<and>
       dict_get d ''product'' = product e \<and>
       dict_get d ''account_username'' = account_username e \<and>
       dict_get d ''counterparty'' = counterparty e \<and>
       dict_get d ''sale_type'' = entry_sale_type e \<and>
       dict_get d ''metadata'' = metadata e"
    by (rule exI [of _ d])
       (simp add: d look dict_get_def has_key_def entry_keys_def to_dict_data_lookup)
qed

theorem to_dict_total_witness:
  "\<not> int_overflows (quantity unit_less_entry) \<and> quantity unit_less_entry = 0 \<and>
   amount unit_less_entry = 1 / 8 \<and>
   to_dict unit_less_entry = Inr unit_less_dict \<and>
   dict_get unit_less_dict ''price'' = PFloat 0 \<and>
   dict_get unit_less_dict ''amount'' = PFloat (3 / 25) \<and>
   dict_get unit_less_dict ''revenue'' = PFloat (3 / 25) \<and>
   dict_get unit_less_dict ''count'' = PInt 0 \<and>
   dict_get unit_less_dict ''admin'' = PStr ''a1'' \<and>
   dict_get unit_less_dict ''role'' = PStr ROLE_AGENT \<and>
   \<not> int_overflows (quantity bulk_entry) \<and> quantity bulk_entry = 200 \<and>
   amount bulk_entry = 3 \<and>
   to_dict bulk_entry = Inr bulk_dict \<and>
   py_round2 (float_div (amount bulk_entry) (fl (of_int (quantity bulk_entry)))) = 1 / 100 \<and>
   dict_get bulk_dict ''price'' = PFloat (1 / 100) \<and>
   dict_get bulk_dict ''revenue'' = PFloat 3 \<and>
   int_overflows (quantity huge_quantity_entry) \<and>
   to_dict huge_quantity_entry = Inl OverflowError"
proof -
  have r1: "\<not> int_overflows (quantity unit_less_entry)" by code_simp
  have r2: "\<not> int_overflows (quantity bulk_entry)" by code_simp
  have q: "quantity bulk_entry \<noteq> 0" by (simp add: bulk_entry_def)
  show ?thesis
    using to_dict_total [of unit_less_entry] to_dict_total [of bulk_entry]
      to_dict_total [of huge_quantity_entry]
      r1 r2 q unit_less_dict_run bulk_dict_run huge_quantity_overflows
    by (simp add: unit_less_entry_def unit_less_dict_def bulk_entry_def bulk_dict_def dict_get_def)
qed

end
